theory Spec2Isabelle
  imports Complex_Main "HOL-Library.Product_Lexorder"
begin

section \<open>Statistical clear sky fitting: the orchestration of the alternating minimisation\<close>

text \<open>
  The development embeds the two fitting classes of the repository:
  \<^item> \<open>IterativeClearSky\<close> of \<^verbatim>\<open>clearsky/main.py\<close> (weights, \<open>calc_objective\<close>, \<open>min_L\<close>,
    \<open>min_R\<close>, \<open>minimize_objective\<close>);
  \<^item> \<open>IterativeFitting\<close> of \<^verbatim>\<open>statistical_clear_sky/algorithm/iterative_fitting.py\<close>
    (\<open>_calculate_objective\<close>, \<open>_obtain_weights\<close>, \<open>_minimize_objective\<close>, \<open>execute\<close>).

  Numbers. A numpy float is modelled by a real number; rounding is not modelled. The three
  places where the source leaves the finite numbers (the start value \<open>np.inf\<close> of
  \<open>improvement\<close>, a division whose divisor may be zero, a statistic of an empty array) are
  typed \<open>npfloat\<close>: a finite real, plus or minus infinity, or not-a-number. numpy does
  not raise on a float division by zero; it returns one of these values. The model has one
  zero, read as \<open>+0.0\<close>.

  The convex solver (cvxpy with its backend) is an external collaborator: it is a parameter
  of the model, a function from the problem it is handed to its outcome.
\<close>

subsection \<open>numpy floats that may leave the finite numbers\<close>

datatype npfloat = Fin real | PInf | NInf | NaN

text \<open>\<open>a >= b\<close>: every comparison with not-a-number is false.\<close>

fun np_ge :: "npfloat \<Rightarrow> npfloat \<Rightarrow> bool" where
  "np_ge NaN b = False"
| "np_ge a NaN = False"
| "np_ge PInf b = True"
| "np_ge a NInf = True"
| "np_ge (Fin a) (Fin b) = (a \<ge> b)"
| "np_ge (Fin a) PInf = False"
| "np_ge NInf b = False"

text \<open>\<open>a < b\<close>.\<close>

fun np_lt :: "npfloat \<Rightarrow> npfloat \<Rightarrow> bool" where
  "np_lt NaN b = False"
| "np_lt a NaN = False"
| "np_lt PInf b = False"
| "np_lt a NInf = False"
| "np_lt (Fin a) (Fin b) = (a < b)"
| "np_lt (Fin a) PInf = True"
| "np_lt NInf b = True"

text \<open>\<open>a *= -1\<close>.\<close>

fun np_negate :: "npfloat \<Rightarrow> npfloat" where
  "np_negate (Fin a) = Fin (a * (- 1))"
| "np_negate PInf = NInf"
| "np_negate NInf = PInf"
| "np_negate NaN = NaN"

text \<open>\<open>a / b\<close> on two finite floats: a zero divisor gives an infinity of the sign of
  \<open>a\<close>, and \<open>0 / 0\<close> is not-a-number.\<close>

definition np_divide :: "real \<Rightarrow> real \<Rightarrow> npfloat" where
  "np_divide a b =
     (if b \<noteq> 0 then Fin (a / b)
      else if a > 0 then PInf
      else if a < 0 then NInf
      else NaN)"

text \<open>\<open>|a|\<close>, for stating properties.\<close>

fun np_abs :: "npfloat \<Rightarrow> npfloat" where
  "np_abs (Fin a) = Fin \<bar>a\<bar>"
| "np_abs PInf = PInf"
| "np_abs NInf = PInf"
| "np_abs NaN = NaN"

subsection \<open>Matrices as lists of rows\<close>

text \<open>
  A two-dimensional array is the list of its rows. The cvxpy variables of the source have
  fixed shapes, so the arrays met at run time are rectangular; \<open>rectangular\<close> says so
  where a statement needs it. Slices with constant bounds are \<open>take\<close> and \<open>drop\<close>:
  \<open>xs[:-c]\<close> is \<open>take (length xs - c) xs\<close> (empty when \<open>xs\<close> is shorter than
  \<open>c\<close>, as in Python), \<open>xs[c:]\<close> is \<open>drop c xs\<close>.
\<close>

type_synonym matrix = "real list list"


definition shape1 :: "matrix \<Rightarrow> nat" where
  "shape1 M = (case M of [] \<Rightarrow> 0 | r # _ \<Rightarrow> length r)"


definition slice_to_neg :: "nat \<Rightarrow> 'a list \<Rightarrow> 'a list" where
  "slice_to_neg c xs = take (length xs - c) xs"

definition slice_from :: "nat \<Rightarrow> 'a list \<Rightarrow> 'a list" where
  "slice_from c xs = drop c xs"

text \<open>\<open>xs[1:-1]\<close>.\<close>

definition slice_inner :: "'a list \<Rightarrow> 'a list" where
  "slice_inner xs = drop 1 (take (length xs - 1) xs)"

definition mat_sub :: "matrix \<Rightarrow> matrix \<Rightarrow> matrix" where
  "mat_sub A B = map2 (map2 (-)) A B"

definition mat_add :: "matrix \<Rightarrow> matrix \<Rightarrow> matrix" where
  "mat_add A B = map2 (map2 (+)) A B"

definition mat_scale :: "real \<Rightarrow> matrix \<Rightarrow> matrix" where
  "mat_scale c A = map (map ((*) c)) A"

definition mat_abs :: "matrix \<Rightarrow> matrix" where
  "mat_abs A = map (map abs) A"

text \<open>\<open>A.dot(B)\<close>: entry \<open>(i, j)\<close> is the sum over \<open>l\<close> of \<open>A[i][l] * B[l][j]\<close>.\<close>

definition mat_dot :: "matrix \<Rightarrow> matrix \<Rightarrow> matrix" where
  "mat_dot A B =
     map (\<lambda>a. map (\<lambda>j. sum_list (map2 (\<lambda>x b. x * b ! j) a B)) [0..<shape1 B]) A"

text \<open>\<open>np.diag(w)\<close> and \<open>np.eye(k)\<close>.\<close>

definition diag :: "real list \<Rightarrow> matrix" where
  "diag w = map (\<lambda>i. map (\<lambda>j. if i = j then w ! i else 0) [0..<length w]) [0..<length w]"

definition eye :: "nat \<Rightarrow> matrix" where
  "eye k = map (\<lambda>i. map (\<lambda>j. if i = j then 1 else 0) [0..<k]) [0..<k]"

text \<open>The sum of all entries, and the Frobenius norm.\<close>

definition mat_sum :: "matrix \<Rightarrow> real" where
  "mat_sum A = sum_list (map sum_list A)"

definition norm_fro :: "matrix \<Rightarrow> real" where
  "norm_fro A = sqrt (sum_list (map (\<lambda>r. sum_list (map (\<lambda>x. x\<^sup>2) r)) A))"

text \<open>The second difference along the rows, \<open>A[:-2, :] - 2 * A[1:-1, :] + A[2:, :]\<close>, and
  along the columns, \<open>A[:, :-2] - 2 * A[:, 1:-1] + A[:, 2:]\<close>.\<close>

definition second_diff_rows :: "matrix \<Rightarrow> matrix" where
  "second_diff_rows A =
     mat_add (mat_sub (slice_to_neg 2 A) (mat_scale 2 (slice_inner A))) (slice_from 2 A)"

definition second_diff_cols :: "matrix \<Rightarrow> matrix" where
  "second_diff_cols A =
     mat_add (mat_sub (map (slice_to_neg 2) A) (mat_scale 2 (map slice_inner A)))
       (map (slice_from 2) A)"

subsection \<open>The objective evaluator\<close>

text \<open>
  \<open>calc_objective\<close> of \<^verbatim>\<open>main.py\<close> and \<open>_calculate_objective\<close> of
  \<^verbatim>\<open>iterative_fitting.py\<close> compute the same four components; the first reads them from
  the object, the second takes them as arguments.
  \<^verbatim>\<open>
  term_f1 = (cvx.sum((0.5 * cvx.abs(D - L.dot(R)) + (tau - 0.5) * (D - L.dot(R))) * W1)).value
  term_f2 = mu_l * norm((L[:-2, :] - 2 * L[1:-1, :] + L[2:, :]).dot(W2), 'fro')
  term_f3 = mu_r * norm(R[:, :-2] - 2 * R[:, 1:-1] + R[:, 2:], 'fro')
  if R.shape[1] < 365 + 2:
      term_f4 = 0
  else:
      term_f4 = mu_r * norm(R[1:, :-365] - R[1:, 365:], 'fro')
  \<close>
\<close>

definition term_f1 :: "matrix \<Rightarrow> real \<Rightarrow> matrix \<Rightarrow> matrix \<Rightarrow> real list \<Rightarrow> real" where
  "term_f1 D tau L R weights =
     (let residual = mat_sub D (mat_dot L R);
          weights_w1 = diag weights
      in mat_sum (mat_dot (mat_add (mat_scale 0.5 (mat_abs residual))
                                   (mat_scale (tau - 0.5) residual)) weights_w1))"

definition term_f2 :: "nat \<Rightarrow> real \<Rightarrow> matrix \<Rightarrow> real" where
  "term_f2 rank_k mu_l L = mu_l * norm_fro (mat_dot (second_diff_rows L) (eye rank_k))"

definition term_f3 :: "real \<Rightarrow> matrix \<Rightarrow> real" where
  "term_f3 mu_r R = mu_r * norm_fro (second_diff_cols R)"

definition term_f4 :: "real \<Rightarrow> matrix \<Rightarrow> real" where
  "term_f4 mu_r R =
     (if shape1 R < 365 + 2 then 0
      else mu_r * norm_fro (mat_sub (map (slice_to_neg 365) (slice_from 1 R))
                                    (map (slice_from 365) (slice_from 1 R))))"

text \<open>The list \<open>components\<close>; the argument \<open>beta_value\<close> is not read by the source.\<close>

definition objective_components ::
  "matrix \<Rightarrow> nat \<Rightarrow> real \<Rightarrow> real \<Rightarrow> real \<Rightarrow> matrix \<Rightarrow> matrix \<Rightarrow> real \<Rightarrow> real list \<Rightarrow> real list" where
  "objective_components D rank_k mu_l mu_r tau L R beta_value weights =
     [term_f1 D tau L R weights, term_f2 rank_k mu_l L, term_f3 mu_r R, term_f4 mu_r R]"

text \<open>\<open>_calculate_objective(..., sum_components)\<close>: the sum, or the list of components.\<close>

definition calculate_objective ::
  "matrix \<Rightarrow> nat \<Rightarrow> real \<Rightarrow> real \<Rightarrow> real \<Rightarrow> matrix \<Rightarrow> matrix \<Rightarrow> real \<Rightarrow> real list \<Rightarrow> bool
     \<Rightarrow> real + real list" where
  "calculate_objective D rank_k mu_l mu_r tau L R beta_value weights sum_components =
     (let components = objective_components D rank_k mu_l mu_r tau L R beta_value weights;
          objective = sum_list components
      in if sum_components then Inl objective else Inr components)"

subsection \<open>Errors, the solver, printed messages\<close>

text \<open>
  The exceptions the source raises or lets through: \<open>cvx.SolverError\<close> (raised by
  \<open>problem.solve\<close>), \<open>ProblemStatusError\<close> with its message, the \<open>IndexError\<close> of an
  index that is out of range, the \<open>ValueError\<close> of \<open>np.max\<close> on an empty array and the
  \<open>TypeError\<close> of arithmetic on \<open>None\<close>.
\<close>

datatype error = SolverError | ProblemStatusError string | IndexError | ValueError | TypeError

text \<open>
  \<open>problem.solve(solver='MOSEK')\<close> either raises \<open>SolverError\<close> or returns, leaving a
  status string in \<open>problem.status\<close> and values in the variables of the problem.
\<close>

datatype 'v solve_result = Solver_raised | Status string 'v

text \<open>
  The lines the source prints, in order; the numbers they format are kept unformatted. In
  \<^verbatim>\<open>iterative_fitting.py\<close> they are printed only when \<open>verbose\<close> is true.
\<close>

datatype message =
    Starting_at real "real list"
  | Minimizing_left
  | Minimizing_right
  | Iteration_line nat real "real list"
  | Residuals_increased
  | Objective_increased
  | Reached_iteration_limit npfloat
  | Solver_failed
  | Status_error string
  | Minimization_complete
  | Obtaining_component_r0
  | Obtaining_weights

subsection \<open>The loop of both classes\<close>

text \<open>
  \<open>while cond: body\<close>, where the body may raise. The loop may run forever, so it is a
  partial function into \<open>option\<close>: \<open>None\<close> is a loop that never exits, \<open>Some (Inl e)\<close> an
  exception that left the loop, \<open>Some (Inr s)\<close> the state at the exit.
\<close>

partial_function (option) while_raising ::
  "('s \<Rightarrow> bool) \<Rightarrow> ('s \<Rightarrow> 'e + 's) \<Rightarrow> 's \<Rightarrow> ('e + 's) option" where
  "while_raising cond body s =
     (if cond s
      then (case body s of Inl e \<Rightarrow> Some (Inl e) | Inr s' \<Rightarrow> while_raising cond body s')
      else Some (Inr s))"

text \<open>
  \<open>iterates cond body s s'\<close>: the loop started in \<open>s\<close> stands in \<open>s'\<close> at the head of an
  iteration, after zero or more iterations that raised nothing.
\<close>

inductive iterates :: "('s \<Rightarrow> bool) \<Rightarrow> ('s \<Rightarrow> 'e + 's) \<Rightarrow> 's \<Rightarrow> 's \<Rightarrow> bool"
  for c :: "'s \<Rightarrow> bool" and b :: "'s \<Rightarrow> 'e + 's" and s :: 's where
  iterates_start: "iterates c b s s"
| iterates_step: "iterates c b s s1 \<Longrightarrow> c s1 \<Longrightarrow> b s1 = Inr s2 \<Longrightarrow> iterates c b s s2"

subsection \<open>\<open>IterativeClearSky\<close> (\<^verbatim>\<open>clearsky/main.py\<close>)\<close>

text \<open>
  The attributes of the object that the fitting reads and writes: \<open>ics_D\<close> is \<open>self.D\<close>,
  \<open>ics_L_cs\<close> is \<open>self.L_cs.value\<close>, and so on. \<open>ics_printed\<close> is the standard output.
\<close>

record IterativeClearSky =
  ics_D :: matrix
  ics_k :: nat
  ics_L_cs :: matrix
  ics_R_cs :: matrix
  ics_beta :: real
  ics_good_fit :: bool
  ics_r0 :: "real list"
  ics_mu_L :: real
  ics_mu_R :: real
  ics_tau :: real
  ics_weights :: "real list"
  ics_test_days :: "nat list option"
  ics_printed :: "message list"

definition ics_print :: "message \<Rightarrow> IterativeClearSky \<Rightarrow> IterativeClearSky" where
  "ics_print msg self = self\<lparr>ics_printed := ics_printed self @ [msg]\<rparr>"

text \<open>\<open>calc_objective(sum_components)\<close> reads its arguments from the object.\<close>

definition calc_objective :: "IterativeClearSky \<Rightarrow> bool \<Rightarrow> real + real list" where
  "calc_objective self sum_components =
     calculate_objective (ics_D self) (ics_k self) (ics_mu_L self) (ics_mu_R self) (ics_tau self)
       (ics_L_cs self) (ics_R_cs self) (ics_beta self) (ics_weights self) sum_components"

text \<open>The two calls the class makes: \<open>self.calc_objective()\<close>, the sum, and
  \<open>self.calc_objective(False)\<close>, the components.\<close>

definition calc_objective_sum :: "IterativeClearSky \<Rightarrow> real" where
  "calc_objective_sum self = sum_list (objective_components (ics_D self) (ics_k self)
       (ics_mu_L self) (ics_mu_R self) (ics_tau self) (ics_L_cs self) (ics_R_cs self)
       (ics_beta self) (ics_weights self))"

definition calc_objective_components :: "IterativeClearSky \<Rightarrow> real list" where
  "calc_objective_components self = objective_components (ics_D self) (ics_k self)
       (ics_mu_L self) (ics_mu_R self) (ics_tau self) (ics_L_cs self) (ics_R_cs self)
       (ics_beta self) (ics_weights self)"

text \<open>
  The constraints of \<open>min_L\<close>:
  \<^verbatim>\<open>
  constraints = [
      self.L_cs * self.R_cs.value >= 0,
      self.L_cs[np.average(self.D, axis=1) <= 1e-5, :] == 0,
      cvx.sum(self.L_cs[:, 1:], axis=0) == 0
  ]
  \<close>
  \<open>np.average(D, axis=1)\<close> averages along axis 1: one average for each row of \<open>D\<close>. The
  boolean mask has one entry for each row of \<open>D\<close>, which is one for each row of \<open>L_cs\<close>.
\<close>

datatype constraint_L =
    L_times_R_nonneg
  | L_rows_zero "bool list"
  | L_cols_sum_zero

definition row_average :: "real list \<Rightarrow> npfloat" where
  "row_average row = np_divide (sum_list row) (real (length row))"

definition near_zero_mask :: "matrix \<Rightarrow> bool list" where
  "near_zero_mask D = map (\<lambda>row. np_ge (Fin (1 / 100000)) (row_average row)) D"

definition min_L_constraints :: "IterativeClearSky \<Rightarrow> constraint_L list" where
  "min_L_constraints self =
     [L_times_R_nonneg, L_rows_zero (near_zero_mask (ics_D self)), L_cols_sum_zero]"

text \<open>
  \<open>min_L\<close>: the solver is handed the object (the data of the objective) and the constraints;
  on the status \<open>optimal\<close> the variable \<open>L_cs\<close> holds the solution.
  \<^verbatim>\<open>
  problem.solve(solver='MOSEK')
  if problem.status != 'optimal':
      raise ProblemStatusError('Minimize R status: ' + problem.status)
  \<close>
\<close>

definition min_L ::
  "(IterativeClearSky \<Rightarrow> constraint_L list \<Rightarrow> matrix solve_result)
     \<Rightarrow> IterativeClearSky \<Rightarrow> error + IterativeClearSky" where
  "min_L solve_L self =
     (case solve_L self (min_L_constraints self) of
        Solver_raised \<Rightarrow> Inl SolverError
      | Status status L \<Rightarrow>
          if status \<noteq> ''optimal''
          then Inl (ProblemStatusError (''Minimize R status: '' @ status))
          else Inr (self\<lparr>ics_L_cs := L\<rparr>))"

text \<open>
  The constraints of \<open>min_R\<close>:
  \<^verbatim>\<open>
  constraints = [self.L_cs.value * self.R_cs >= 0]
  if self.D.shape[1] > 365:
      r = self.R_cs[0, :].T
      if calc_deg:
          constraints.extend([
              cvx.multiply(1./ self.r0[:-365], r[365:] - r[:-365]) == self.beta,
              self.beta >= -.25
          ])
          if max_deg is not None:
              constraints.append(self.beta <= max_deg)
          if min_deg is not None:
              constraints.append(self.beta >= min_deg)
      else:
          constraints.append(cvx.multiply(1./ self.r0[:-365], r[365:] - r[:-365]) == 0)
  \<close>
  A degradation constraint carries its coefficient vector \<open>1./ self.r0[:-365]\<close>.
\<close>

datatype constraint_R =
    L_times_R_nonneg_R
  | Degradation_is_beta "npfloat list"
  | Beta_ge real
  | Beta_le real
  | Degradation_is_zero "npfloat list"

definition reciprocal :: "real list \<Rightarrow> npfloat list" where
  "reciprocal xs = map (np_divide 1) xs"

definition min_R_constraints ::
  "bool \<Rightarrow> real option \<Rightarrow> real option \<Rightarrow> IterativeClearSky \<Rightarrow> constraint_R list" where
  "min_R_constraints calc_deg max_deg min_deg self =
     [L_times_R_nonneg_R] @
     (if shape1 (ics_D self) > 365
      then (if calc_deg
            then [Degradation_is_beta (reciprocal (slice_to_neg 365 (ics_r0 self))),
                  Beta_ge (- 0.25)]
                 @ (case max_deg of None \<Rightarrow> [] | Some d \<Rightarrow> [Beta_le d])
                 @ (case min_deg of None \<Rightarrow> [] | Some d \<Rightarrow> [Beta_ge d])
            else [Degradation_is_zero (reciprocal (slice_to_neg 365 (ics_r0 self)))])
      else [])"

text \<open>
  \<open>min_R\<close>. The variable \<open>beta\<close> belongs to the problem only through the degradation
  constraint; otherwise the solver leaves its value alone. After the status check,
  \<open>self.r0 = self.R_cs.value[0, :]\<close>.
\<close>

definition min_R ::
  "(IterativeClearSky \<Rightarrow> constraint_R list \<Rightarrow> (matrix \<times> real) solve_result)
     \<Rightarrow> bool \<Rightarrow> real option \<Rightarrow> real option \<Rightarrow> IterativeClearSky \<Rightarrow> error + IterativeClearSky" where
  "min_R solve_R calc_deg max_deg min_deg self =
     (case solve_R self (min_R_constraints calc_deg max_deg min_deg self) of
        Solver_raised \<Rightarrow> Inl SolverError
      | Status status (R, b) \<Rightarrow>
          if status \<noteq> ''optimal''
          then Inl (ProblemStatusError (''Minimize R status: '' @ status))
          else (case R of
                  [] \<Rightarrow> Inl IndexError
                | row0 # _ \<Rightarrow>
                    Inr (self\<lparr>ics_R_cs := R,
                              ics_beta := (if shape1 (ics_D self) > 365 \<and> calc_deg
                                           then b else ics_beta self),
                              ics_r0 := row0\<rparr>)))"

text \<open>
  \<open>self.weights[self.test_days] = 0\<close>: an index outside the array raises \<open>IndexError\<close>.
\<close>

definition zero_at :: "nat list \<Rightarrow> 'a::zero list \<Rightarrow> error + 'a list" where
  "zero_at days w =
     (if list_all (\<lambda>i. i < length w) days
      then Inr (fold (\<lambda>i v. v[i := 0]) days w)
      else Inl IndexError)"

definition zero_test_days :: "IterativeClearSky \<Rightarrow> error + IterativeClearSky" where
  "zero_test_days self =
     (case ics_test_days self of
        None \<Rightarrow> Inr self
      | Some days \<Rightarrow>
          (case zero_at days (ics_weights self) of
             Inl e \<Rightarrow> Inl e
           | Inr w \<Rightarrow> Inr (self\<lparr>ics_weights := w\<rparr>)))"

text \<open>
  The loop of \<open>minimize_objective(self, eps=1e-3, max_iter=100, calc_deg=True, max_deg=0.,
  min_deg=-0.25)\<close>. Its state is the locals \<open>improvement\<close>, \<open>old_obj\<close>, \<open>it\<close> and the
  object. No exception is caught: an exception of \<open>min_L\<close> or \<open>min_R\<close> leaves the method.
  \<^verbatim>\<open>
  while improvement >= eps:
      if self.test_days is not None:
          self.weights[self.test_days] = 0
      self.min_L()
      self.min_R(calc_deg=calc_deg, max_deg=max_deg, min_deg=min_deg)
      new_obj = self.calc_objective()
      improvement = (old_obj - new_obj) * 1. / old_obj
      old_obj = new_obj
      it += 1
      print('iteration {}: {:.3f}'.format(it, new_obj), np.round(self.calc_objective(False), 3))
      if improvement < 0:
          print('Objective increased.')
          self.good_fit = False
          improvement *= -1
      if it >= max_iter:
          print('Reached iteration limit. Previous improvement: {:.2f}%'.format(improvement * 100))
          improvement = 0.
  \<close>
\<close>

type_synonym ics_state = "npfloat \<times> real \<times> nat \<times> IterativeClearSky"

definition ics_cond :: "npfloat \<Rightarrow> ics_state \<Rightarrow> bool" where
  "ics_cond eps st = (case st of (improvement, old_obj, it, self) \<Rightarrow> np_ge improvement eps)"

definition ics_body ::
  "(IterativeClearSky \<Rightarrow> constraint_L list \<Rightarrow> matrix solve_result)
     \<Rightarrow> (IterativeClearSky \<Rightarrow> constraint_R list \<Rightarrow> (matrix \<times> real) solve_result)
     \<Rightarrow> int \<Rightarrow> bool \<Rightarrow> real option \<Rightarrow> real option \<Rightarrow> ics_state \<Rightarrow> error + ics_state" where
  "ics_body solve_L solve_R max_iter calc_deg max_deg min_deg st =
     (case st of (improvement, old_obj, it, self) \<Rightarrow>
        (case zero_test_days self of
           Inl e \<Rightarrow> Inl e
         | Inr self1 \<Rightarrow>
        (case min_L solve_L self1 of
           Inl e \<Rightarrow> Inl e
         | Inr self2 \<Rightarrow>
        (case min_R solve_R calc_deg max_deg min_deg self2 of
           Inl e \<Rightarrow> Inl e
         | Inr self3 \<Rightarrow>
             (let new_obj = calc_objective_sum self3;
                  improvement1 = np_divide ((old_obj - new_obj) * 1) old_obj;
                  it1 = it + 1;
                  self4 = ics_print (Iteration_line it1 new_obj (calc_objective_components self3))
                            self3;
                  self5 = (if np_lt improvement1 (Fin 0)
                           then (ics_print Objective_increased self4)\<lparr>ics_good_fit := False\<rparr>
                           else self4);
                  improvement2 = (if np_lt improvement1 (Fin 0)
                                  then np_negate improvement1 else improvement1);
                  self6 = (if int it1 \<ge> max_iter
                           then ics_print (Reached_iteration_limit improvement2) self5
                           else self5);
                  improvement3 = (if int it1 \<ge> max_iter then Fin 0 else improvement2)
              in Inr (improvement3, new_obj, it1, self6))))))"

text \<open>The state in which the loop is entered: \<open>improvement = np.inf\<close>, \<open>it = 0\<close>,
  \<open>self.good_fit = True\<close>.\<close>

definition ics_initial :: "IterativeClearSky \<Rightarrow> ics_state" where
  "ics_initial self =
     (let self1 = ics_print (Starting_at (calc_objective_sum self) (calc_objective_components self))
                    self
      in (PInf, calc_objective_sum self1, 0, self1\<lparr>ics_good_fit := True\<rparr>))"

definition minimize_objective_loop ::
  "(IterativeClearSky \<Rightarrow> constraint_L list \<Rightarrow> matrix solve_result)
     \<Rightarrow> (IterativeClearSky \<Rightarrow> constraint_R list \<Rightarrow> (matrix \<times> real) solve_result)
     \<Rightarrow> npfloat \<Rightarrow> int \<Rightarrow> bool \<Rightarrow> real option \<Rightarrow> real option \<Rightarrow> IterativeClearSky
     \<Rightarrow> (error + ics_state) option" where
  "minimize_objective_loop solve_L solve_R eps max_iter calc_deg max_deg min_deg self =
     while_raising (ics_cond eps) (ics_body solve_L solve_R max_iter calc_deg max_deg min_deg)
       (ics_initial self)"

text \<open>\<open>minimize_objective\<close>: the loop, then the line \<open>Minimization complete\<close>.\<close>

definition minimize_objective ::
  "(IterativeClearSky \<Rightarrow> constraint_L list \<Rightarrow> matrix solve_result)
     \<Rightarrow> (IterativeClearSky \<Rightarrow> constraint_R list \<Rightarrow> (matrix \<times> real) solve_result)
     \<Rightarrow> npfloat \<Rightarrow> int \<Rightarrow> bool \<Rightarrow> real option \<Rightarrow> real option \<Rightarrow> IterativeClearSky
     \<Rightarrow> (error + IterativeClearSky) option" where
  "minimize_objective solve_L solve_R eps max_iter calc_deg max_deg min_deg self =
     (case minimize_objective_loop solve_L solve_R eps max_iter calc_deg max_deg min_deg self of
        None \<Rightarrow> None
      | Some (Inl e) \<Rightarrow> Some (Inl e)
      | Some (Inr (improvement, old_obj, it, self1)) \<Rightarrow>
          Some (Inr (ics_print Minimization_complete self1)))"

subsection \<open>\<open>IterativeFitting\<close> (\<^verbatim>\<open>iterative_fitting.py\<close>)\<close>

text \<open>
  \<open>StateData\<close> is a class of the repository that is not among the sources; the methods
  below only read and write its attributes, so it is the record of the attributes they
  touch. \<open>sd_l_value\<close> is \<open>self._state_data.l_value\<close>, and so on. An attribute that may
  be \<open>None\<close> is an \<open>option\<close>.
\<close>

record StateData =
  sd_mu_l :: "real option"
  sd_mu_r :: "real option"
  sd_tau :: "real option"
  sd_l_value :: matrix
  sd_r_value :: matrix
  sd_beta_value :: real
  sd_component_r0 :: "real list"
  sd_weights :: "real list"
  sd_f1_increase :: bool
  sd_obj_increase :: bool
  sd_is_solver_error :: bool
  sd_is_problem_status_error :: bool
  sd_residuals_median :: "npfloat option"
  sd_residuals_variance :: "npfloat option"
  sd_residual_l0_norm :: "real option"

text \<open>
  The attributes of the \<open>IterativeFitting\<close> object: \<open>fit_l_cs_value\<close> is
  \<open>self._l_cs_value\<close>, the value behind the accessor \<open>l_cs_value\<close>; \<open>fit_printed\<close> is the
  standard output.
\<close>

record IterativeFitting =
  fit_power_signals_d :: matrix
  fit_rank_k :: nat
  fit_left_low_rank_matrix_u :: matrix
  fit_singular_values_sigma :: "real list"
  fit_right_low_rank_matrix_v :: matrix
  fit_matrix_l0 :: matrix
  fit_test_days :: "nat list option"
  fit_state_data :: StateData
  fit_l_cs_value :: matrix
  fit_r_cs_value :: matrix
  fit_beta_value :: real
  fit_residuals_median :: "npfloat option"
  fit_residuals_variance :: "npfloat option"
  fit_residual_l0_norm :: "real option"
  fit_printed :: "message list"

text \<open>\<open>if verbose: print(...)\<close>.\<close>

definition fit_print :: "bool \<Rightarrow> message \<Rightarrow> IterativeFitting \<Rightarrow> IterativeFitting" where
  "fit_print verbose msg self =
     (if verbose then self\<lparr>fit_printed := fit_printed self @ [msg]\<rparr> else self)"

definition make_result_variables_accessible ::
  "matrix \<Rightarrow> matrix \<Rightarrow> real \<Rightarrow> IterativeFitting \<Rightarrow> IterativeFitting" where
  "make_result_variables_accessible l_cs_value r_cs_value beta_value self =
     self\<lparr>fit_l_cs_value := l_cs_value, fit_r_cs_value := r_cs_value,
          fit_beta_value := beta_value\<rparr>"

definition store_minimization_state_data ::
  "real \<Rightarrow> real \<Rightarrow> real \<Rightarrow> matrix \<Rightarrow> matrix \<Rightarrow> real \<Rightarrow> real list
     \<Rightarrow> IterativeFitting \<Rightarrow> IterativeFitting" where
  "store_minimization_state_data mu_l mu_r tau l_cs_value r_cs_value beta_value component_r0 self =
     self\<lparr>fit_state_data := (fit_state_data self)
            \<lparr>sd_mu_l := Some mu_l, sd_mu_r := Some mu_r, sd_tau := Some tau,
             sd_l_value := l_cs_value, sd_r_value := r_cs_value,
             sd_beta_value := beta_value, sd_component_r0 := component_r0\<rparr>\<rparr>"

definition store_final_state_data :: "real list \<Rightarrow> IterativeFitting \<Rightarrow> IterativeFitting" where
  "store_final_state_data weights self =
     self\<lparr>fit_state_data := (fit_state_data self)
            \<lparr>sd_residuals_median := fit_residuals_median self,
             sd_residuals_variance := fit_residuals_variance self,
             sd_residual_l0_norm := fit_residual_l0_norm self,
             sd_weights := weights\<rparr>\<rparr>"

text \<open>\<open>a.size\<close>: the number of entries.\<close>

definition mat_size :: "'a list list \<Rightarrow> nat" where
  "mat_size M = sum_list (map length M)"

text \<open>
  \<open>_obtain_initial_values\<close>: the stored values when there are any, else the seed of the
  singular value decomposition; the result is also published through the accessors.
\<close>

definition obtain_initial_values ::
  "IterativeFitting \<Rightarrow> (matrix \<times> matrix \<times> real) \<times> IterativeFitting" where
  "obtain_initial_values self =
     (let sd = fit_state_data self;
          l_cs_value = (if mat_size (sd_l_value sd) > 0 then sd_l_value sd
                        else map (take (fit_rank_k self)) (fit_left_low_rank_matrix_u self));
          r_cs_value = (if mat_size (sd_r_value sd) > 0 then sd_r_value sd
                        else mat_dot (diag (take (fit_rank_k self) (fit_singular_values_sigma self)))
                               (take (fit_rank_k self) (fit_right_low_rank_matrix_v self)));
          beta_value = (if sd_beta_value sd \<noteq> 0 then sd_beta_value sd else 0)
      in ((l_cs_value, r_cs_value, beta_value),
          make_result_variables_accessible l_cs_value r_cs_value beta_value self))"

text \<open>
  \<open>_obtain_initial_component_r0\<close>. \<open>LinearizationHelper\<close> is not among the sources: its
  method \<open>obtain_component_r0\<close> is the parameter \<open>helper\<close>.
\<close>

definition obtain_initial_component_r0 ::
  "(matrix \<Rightarrow> matrix \<Rightarrow> real list \<Rightarrow> matrix \<Rightarrow> nat \<Rightarrow> real list)
     \<Rightarrow> IterativeFitting \<Rightarrow> real list \<times> IterativeFitting" where
  "obtain_initial_component_r0 helper self =
     (let self1 = fit_print True Obtaining_component_r0 self;
          sd = fit_state_data self1
      in (if length (sd_component_r0 sd) > 0 then sd_component_r0 sd
          else helper (fit_power_signals_d self1) (fit_left_low_rank_matrix_u self1)
                 (fit_singular_values_sigma self1) (fit_right_low_rank_matrix_v self1)
                 (fit_rank_k self1),
          self1))"

text \<open>
  \<open>_obtain_weights\<close>. \<open>WeightSetting\<close> is not among the sources: its method
  \<open>obtain_weights\<close> is the parameter \<open>weight_setting\<close>.
  \<^verbatim>\<open>
  if self._state_data.weights.size > 0:
      weights = self._state_data.weights
  else:
      weights = self._weight_setting.obtain_weights(self._power_signals_d)
      if self._test_days is not None:
          weights[self._test_days] = 0
  return weights
  \<close>
\<close>

definition obtain_weights ::
  "(matrix \<Rightarrow> real list) \<Rightarrow> IterativeFitting \<Rightarrow> (error + real list) \<times> IterativeFitting" where
  "obtain_weights weight_setting self =
     (let self1 = fit_print True Obtaining_weights self;
          sd = fit_state_data self1
      in (if length (sd_weights sd) > 0 then Inr (sd_weights sd)
          else (case fit_test_days self1 of
                  None \<Rightarrow> Inr (weight_setting (fit_power_signals_d self1))
                | Some days \<Rightarrow> zero_at days (weight_setting (fit_power_signals_d self1))),
          self1))"

text \<open>
  numpy statistics over values that may have left the finite numbers: \<open>x / a\<close>,
  \<open>np.median\<close> (not-a-number on an empty array or when an entry is not a number; the
  mean of the two middle entries for an even count) and \<open>np.power(np.std(xs), 2)\<close>
  (not-a-number as soon as one entry is not finite).
\<close>

fun np_divide_by :: "real \<Rightarrow> npfloat \<Rightarrow> npfloat" where
  "np_divide_by x (Fin a) = np_divide x a"
| "np_divide_by x PInf = Fin 0"
| "np_divide_by x NInf = Fin 0"
| "np_divide_by x NaN = NaN"

fun np_key :: "npfloat \<Rightarrow> int \<times> real" where
  "np_key NInf = (- 1, 0)"
| "np_key (Fin a) = (0, a)"
| "np_key PInf = (1, 0)"
| "np_key NaN = (2, 0)"

fun np_mean2 :: "npfloat \<Rightarrow> npfloat \<Rightarrow> npfloat" where
  "np_mean2 (Fin a) (Fin b) = Fin ((a + b) / 2)"
| "np_mean2 NaN b = NaN"
| "np_mean2 a NaN = NaN"
| "np_mean2 PInf NInf = NaN"
| "np_mean2 NInf PInf = NaN"
| "np_mean2 PInf b = PInf"
| "np_mean2 a PInf = PInf"
| "np_mean2 NInf b = NInf"
| "np_mean2 a NInf = NInf"

definition np_median :: "npfloat list \<Rightarrow> npfloat" where
  "np_median xs =
     (if xs = [] \<or> NaN \<in> set xs then NaN
      else (let s = sort_key np_key xs; n = length s
            in if odd n then s ! (n div 2)
               else np_mean2 (s ! (n div 2 - 1)) (s ! (n div 2))))"

fun finite_values :: "npfloat list \<Rightarrow> real list option" where
  "finite_values [] = Some []"
| "finite_values (Fin a # xs) = map_option ((#) a) (finite_values xs)"
| "finite_values (x # xs) = None"

definition np_std_squared :: "npfloat list \<Rightarrow> npfloat" where
  "np_std_squared xs =
     (case finite_values xs of
        None \<Rightarrow> NaN
      | Some vs \<Rightarrow>
          if vs = [] then NaN
          else (let mean = sum_list vs / real (length vs)
                in Fin ((sqrt (sum_list (map (\<lambda>x. \<bar>x - mean\<bar>\<^sup>2) vs) / real (length vs)))\<^sup>2)))"

text \<open>\<open>np.sum(M, axis=0)\<close>, \<open>np.isclose(a, 0)\<close> with its default tolerances, \<open>M[:, mask]\<close>,
  \<open>np.average(M)\<close> and \<open>M[:, 0]\<close>.\<close>

definition col_sums :: "matrix \<Rightarrow> real list" where
  "col_sums M = map (\<lambda>j. sum_list (map (\<lambda>r. r ! j) M)) [0..<shape1 M]"

definition isclose_zero :: "real \<Rightarrow> bool" where
  "isclose_zero a = (\<bar>a - 0\<bar> \<le> 1 / 10 ^ 8 + 1 / 10 ^ 5 * \<bar>0\<bar>)"

definition select_cols :: "bool list \<Rightarrow> 'a list list \<Rightarrow> 'a list list" where
  "select_cols use M = map (\<lambda>r. map snd (filter fst (zip use r))) M"

definition np_average :: "matrix \<Rightarrow> npfloat" where
  "np_average M = np_divide (mat_sum M) (real (mat_size M))"

definition column0 :: "matrix \<Rightarrow> error + real list" where
  "column0 M = (if list_all (\<lambda>r. r \<noteq> []) M then Inr (map hd M) else Inl IndexError)"

text \<open>
  \<open>_analyze_residuals\<close>:
  \<^verbatim>\<open>
  weights_w1 = np.diag(weights)
  wres = np.dot(l_cs_value.dot(r_cs_value) - self._power_signals_d, weights_w1)
  use_days = np.logical_not(np.isclose(np.sum(wres, axis=0), 0))
  scaled_wres = wres[:, use_days] / np.average(self._power_signals_d[:, use_days])
  final_metric = scaled_wres[self._power_signals_d[:, use_days] > 1e-3]
  self._residuals_median = np.median(final_metric)
  self._residuals_variance = np.power(np.std(final_metric), 2)
  self._residual_l0_norm = np.linalg.norm(self._matrix_l0[:, 0] - l_cs_value[:, 0])
  \<close>
\<close>

definition analyze_residuals ::
  "matrix \<Rightarrow> matrix \<Rightarrow> real list \<Rightarrow> IterativeFitting \<Rightarrow> error + IterativeFitting" where
  "analyze_residuals l_cs_value r_cs_value weights self =
     (let weights_w1 = diag weights;
          wres = mat_dot (mat_sub (mat_dot l_cs_value r_cs_value) (fit_power_signals_d self))
                   weights_w1;
          use_days = map (\<lambda>a. \<not> isclose_zero a) (col_sums wres);
          d_use = select_cols use_days (fit_power_signals_d self);
          average = np_average d_use;
          scaled_wres = map (map (\<lambda>x. np_divide_by x average)) (select_cols use_days wres);
          final_metric = concat (map2 (\<lambda>srow drow. map fst (filter (\<lambda>(x, d). d > 1 / 1000)
                                                          (zip srow drow))) scaled_wres d_use)
      in (case column0 (fit_matrix_l0 self) of
            Inl e \<Rightarrow> Inl e
          | Inr l0_col \<Rightarrow>
         (case column0 l_cs_value of
            Inl e \<Rightarrow> Inl e
          | Inr l_col \<Rightarrow>
              Inr (self\<lparr>fit_residuals_median := Some (np_median final_metric),
                        fit_residuals_variance := Some (np_std_squared final_metric),
                        fit_residual_l0_norm :=
                          Some (sqrt (sum_list (map (\<lambda>x. x\<^sup>2) (map2 (-) l0_col l_col))))\<rparr>))))"

text \<open>
  The arguments of \<open>execute\<close> and \<open>_minimize_objective\<close>, with the defaults of the source:
  \<open>mu_l=1.0, mu_r=20.0, tau=0.8, exit_criterion_epsilon=1e-3, max_iteration=100,
  is_degradation_calculated=True, max_degradation=None, min_degradation=None,
  verbose=True\<close>.
\<close>

record fit_args =
  arg_mu_l :: real
  arg_mu_r :: real
  arg_tau :: real
  arg_exit_criterion_epsilon :: npfloat
  arg_max_iteration :: int
  arg_is_degradation_calculated :: bool
  arg_max_degradation :: "real option"
  arg_min_degradation :: "real option"
  arg_verbose :: bool

definition default_args :: fit_args where
  "default_args =
     \<lparr>arg_mu_l = 1, arg_mu_r = 20, arg_tau = 0.8, arg_exit_criterion_epsilon = Fin (1 / 1000),
      arg_max_iteration = 100, arg_is_degradation_calculated = True,
      arg_max_degradation = None, arg_min_degradation = None, arg_verbose = True\<rparr>"

text \<open>
  \<open>LeftMatrixMinimization\<close> and \<open>RightMatrixMinimization\<close> are classes of the repository
  that are not among the sources. \<open>_minimize_objective\<close> builds one object of each before
  the loop and calls \<open>minimize(l_cs_value, r_cs_value, beta_value)\<close> on them in the loop:
  each \<open>minimize\<close> is a function from the three values to three new values or a raised
  exception. The constructors are parameters of the model.
\<close>

type_synonym minimizer = "matrix \<times> matrix \<times> real \<Rightarrow> error + matrix \<times> matrix \<times> real"

type_synonym left_constructor = "matrix \<Rightarrow> nat \<Rightarrow> real list \<Rightarrow> real \<Rightarrow> real \<Rightarrow> minimizer"

type_synonym right_constructor =
  "matrix \<Rightarrow> nat \<Rightarrow> real list \<Rightarrow> real \<Rightarrow> real \<Rightarrow> real list \<Rightarrow> bool \<Rightarrow> real option \<Rightarrow> real option
     \<Rightarrow> minimizer"

text \<open>The locals of \<open>_minimize_objective\<close> that live across iterations, and the object.\<close>

record fit_locals =
  lv_l_cs_value :: matrix
  lv_r_cs_value :: matrix
  lv_beta_value :: real
  lv_component_r0 :: "real list"
  lv_improvement :: npfloat
  lv_old_objective_value :: real
  lv_iteration :: nat
  lv_f1_last :: real
  lv_self :: IterativeFitting

definition fit_cond :: "fit_args \<Rightarrow> fit_locals \<Rightarrow> bool" where
  "fit_cond args lv = np_ge (lv_improvement lv) (arg_exit_criterion_epsilon args)"

definition set_f1_increase :: "IterativeFitting \<Rightarrow> IterativeFitting" where
  "set_f1_increase self = self\<lparr>fit_state_data := (fit_state_data self)\<lparr>sd_f1_increase := True\<rparr>\<rparr>"

definition set_obj_increase :: "IterativeFitting \<Rightarrow> IterativeFitting" where
  "set_obj_increase self = self\<lparr>fit_state_data := (fit_state_data self)\<lparr>sd_obj_increase := True\<rparr>\<rparr>"

definition set_is_solver_error :: "IterativeFitting \<Rightarrow> IterativeFitting" where
  "set_is_solver_error self =
     self\<lparr>fit_state_data := (fit_state_data self)\<lparr>sd_is_solver_error := True\<rparr>\<rparr>"

definition set_is_problem_status_error :: "IterativeFitting \<Rightarrow> IterativeFitting" where
  "set_is_problem_status_error self =
     self\<lparr>fit_state_data := (fit_state_data self)\<lparr>sd_is_problem_status_error := True\<rparr>\<rparr>"

text \<open>
  One iteration of the loop of \<open>_minimize_objective\<close>. An exception carries the object as
  it is when the exception is raised, for the handlers that follow the loop.
  \<^verbatim>\<open>
  while improvement >= exit_criterion_epsilon:
      self._store_minimization_state_data(mu_l, mu_r, tau,
          l_cs_value, r_cs_value, beta_value, component_r0)
      l_cs_value, r_cs_value, beta_value = left_matric_minimization.minimize(
          l_cs_value, r_cs_value, beta_value)
      l_cs_value, r_cs_value, beta_value = right_matric_minimization.minimize(
          l_cs_value, r_cs_value, beta_value)
      component_r0 = r_cs_value[0, :]
      objective_values = self._calculate_objective(mu_l, mu_r, tau,
          l_cs_value, r_cs_value, beta_value, weights, sum_components=False)
      new_objective_value = np.sum(objective_values)
      improvement = ((old_objective_value - new_objective_value) * 1. / old_objective_value)
      old_objective_value = new_objective_value
      iteration += 1
      if objective_values[0] > f1_last:
          self._state_data.f1_increase = True
      if improvement < 0:
          self._state_data.obj_increase = True
          improvement *= -1
      if iteration >= max_iteration:
          improvement = 0.
      self._store_minimization_state_data(mu_l, mu_r, tau,
          l_cs_value, r_cs_value, beta_value, component_r0)
  \<close>
  (the \<open>print\<close> lines under \<open>if verbose:\<close> are left out of the excerpt, not of the model).
\<close>

definition fit_body ::
  "minimizer \<Rightarrow> minimizer \<Rightarrow> real list \<Rightarrow> fit_args \<Rightarrow> fit_locals
     \<Rightarrow> (error \<times> IterativeFitting) + fit_locals" where
  "fit_body left_minimize right_minimize weights args lv =
     (let self1 = store_minimization_state_data (arg_mu_l args) (arg_mu_r args) (arg_tau args)
                    (lv_l_cs_value lv) (lv_r_cs_value lv) (lv_beta_value lv)
                    (lv_component_r0 lv) (lv_self lv);
          self2 = fit_print (arg_verbose args) Minimizing_left self1
      in case left_minimize (lv_l_cs_value lv, lv_r_cs_value lv, lv_beta_value lv) of
           Inl e \<Rightarrow> Inl (e, self2)
         | Inr (l1, r1, b1) \<Rightarrow>
        (let self3 = fit_print (arg_verbose args) Minimizing_right self2
         in case right_minimize (l1, r1, b1) of
              Inl e \<Rightarrow> Inl (e, self3)
            | Inr (l2, r2, b2) \<Rightarrow>
           (case r2 of
              [] \<Rightarrow> Inl (IndexError, self3)
            | component_r0 # _ \<Rightarrow>
               (let objective_values =
                      objective_components (fit_power_signals_d self3) (fit_rank_k self3)
                        (arg_mu_l args) (arg_mu_r args) (arg_tau args) l2 r2 b2 weights;
                    new_objective_value = sum_list objective_values;
                    improvement = np_divide ((lv_old_objective_value lv - new_objective_value) * 1)
                                    (lv_old_objective_value lv);
                    iteration = lv_iteration lv + 1;
                    self4 = fit_print (arg_verbose args)
                              (Iteration_line iteration new_objective_value objective_values) self3;
                    self5 = (if objective_values ! 0 > lv_f1_last lv
                             then fit_print (arg_verbose args) Residuals_increased
                                    (set_f1_increase self4)
                             else self4);
                    self6 = (if np_lt improvement (Fin 0)
                             then set_obj_increase
                                    (fit_print (arg_verbose args) Objective_increased self5)
                             else self5);
                    improvement1 = (if np_lt improvement (Fin 0)
                                    then np_negate improvement else improvement);
                    self7 = (if int iteration \<ge> arg_max_iteration args
                             then fit_print (arg_verbose args)
                                    (Reached_iteration_limit improvement1) self6
                             else self6);
                    improvement2 = (if int iteration \<ge> arg_max_iteration args
                                    then Fin 0 else improvement1);
                    self8 = store_minimization_state_data (arg_mu_l args) (arg_mu_r args)
                              (arg_tau args) l2 r2 b2 component_r0 self7
                in Inr \<lparr>lv_l_cs_value = l2, lv_r_cs_value = r2, lv_beta_value = b2,
                        lv_component_r0 = component_r0, lv_improvement = improvement2,
                        lv_old_objective_value = new_objective_value,
                        lv_iteration = iteration, lv_f1_last = lv_f1_last lv,
                        lv_self = self8\<rparr>))))"

text \<open>
  The locals before the loop: \<open>improvement = np.inf\<close>, \<open>old_objective_value\<close> the sum of
  the starting components, \<open>iteration = 0\<close>, \<open>f1_last = objective_values[0]\<close>.
\<close>

definition fit_initial ::
  "matrix \<Rightarrow> matrix \<Rightarrow> real \<Rightarrow> real list \<Rightarrow> real list \<Rightarrow> fit_args \<Rightarrow> IterativeFitting
     \<Rightarrow> fit_locals" where
  "fit_initial l_cs_value r_cs_value beta_value component_r0 weights args self =
     (let objective_values =
            objective_components (fit_power_signals_d self) (fit_rank_k self)
              (arg_mu_l args) (arg_mu_r args) (arg_tau args) l_cs_value r_cs_value beta_value
              weights;
          self1 = fit_print (arg_verbose args)
                    (Starting_at (sum_list objective_values) objective_values) self
      in \<lparr>lv_l_cs_value = l_cs_value, lv_r_cs_value = r_cs_value, lv_beta_value = beta_value,
          lv_component_r0 = component_r0, lv_improvement = PInf,
          lv_old_objective_value = sum_list objective_values, lv_iteration = 0,
          lv_f1_last = objective_values ! 0, lv_self = self1\<rparr>)"

text \<open>The two minimizer objects that \<open>_minimize_objective\<close> builds before the loop.\<close>

definition left_matric_minimization ::
  "left_constructor \<Rightarrow> real list \<Rightarrow> fit_args \<Rightarrow> IterativeFitting \<Rightarrow> minimizer" where
  "left_matric_minimization mk_left weights args self =
     mk_left (fit_power_signals_d self) (fit_rank_k self) weights (arg_tau args) (arg_mu_l args)"

definition right_matric_minimization ::
  "right_constructor \<Rightarrow> real list \<Rightarrow> real list \<Rightarrow> fit_args \<Rightarrow> IterativeFitting \<Rightarrow> minimizer" where
  "right_matric_minimization mk_right component_r0 weights args self =
     mk_right (fit_power_signals_d self) (fit_rank_k self) weights (arg_tau args) (arg_mu_r args)
       component_r0 (arg_is_degradation_calculated args) (arg_max_degradation args)
       (arg_min_degradation args)"

definition fit_loop ::
  "left_constructor \<Rightarrow> right_constructor \<Rightarrow> matrix \<Rightarrow> matrix \<Rightarrow> real \<Rightarrow> real list \<Rightarrow> real list
     \<Rightarrow> fit_args \<Rightarrow> IterativeFitting \<Rightarrow> ((error \<times> IterativeFitting) + fit_locals) option" where
  "fit_loop mk_left mk_right l_cs_value r_cs_value beta_value component_r0 weights args self =
     while_raising (fit_cond args)
       (fit_body (left_matric_minimization mk_left weights args self)
                 (right_matric_minimization mk_right component_r0 weights args self)
                 weights args)
       (fit_initial l_cs_value r_cs_value beta_value component_r0 weights args self)"

text \<open>
  \<open>_minimize_objective\<close>: the loop inside \<open>try\<close>, the two handlers, and the \<open>else\<close>
  branch. An exception that no handler names leaves the method.
  \<^verbatim>\<open>
  except cvx.SolverError:
      self._state_data.is_solver_error = True
  except ProblemStatusError as e:
      self._state_data.is_problem_status_error = True
  else:
      self._analyze_residuals(l_cs_value, r_cs_value, weights)
      self._make_result_variables_accessible(l_cs_value, r_cs_value, beta_value)
  \<close>
\<close>

definition fit_minimize_objective ::
  "left_constructor \<Rightarrow> right_constructor \<Rightarrow> matrix \<Rightarrow> matrix \<Rightarrow> real \<Rightarrow> real list \<Rightarrow> real list
     \<Rightarrow> fit_args \<Rightarrow> IterativeFitting \<Rightarrow> ((error \<times> IterativeFitting) + IterativeFitting) option" where
  "fit_minimize_objective mk_left mk_right l_cs_value r_cs_value beta_value component_r0 weights
     args self =
     (case fit_loop mk_left mk_right l_cs_value r_cs_value beta_value component_r0 weights args
             self of
        None \<Rightarrow> None
      | Some (Inl (e, self1)) \<Rightarrow>
          (case e of
             SolverError \<Rightarrow>
               Some (Inr (set_is_solver_error (fit_print (arg_verbose args) Solver_failed self1)))
           | ProblemStatusError msg \<Rightarrow>
               Some (Inr (set_is_problem_status_error
                            (fit_print (arg_verbose args) (Status_error msg) self1)))
           | IndexError \<Rightarrow> Some (Inl (IndexError, self1))
           | ValueError \<Rightarrow> Some (Inl (ValueError, self1))
           | TypeError \<Rightarrow> Some (Inl (TypeError, self1)))
      | Some (Inr lv) \<Rightarrow>
          (let self1 = fit_print (arg_verbose args) Minimization_complete (lv_self lv)
           in case analyze_residuals (lv_l_cs_value lv) (lv_r_cs_value lv) weights self1 of
                Inl e \<Rightarrow> Some (Inl (e, self1))
              | Inr self2 \<Rightarrow>
                  Some (Inr (make_result_variables_accessible (lv_l_cs_value lv)
                               (lv_r_cs_value lv) (lv_beta_value lv) self2))))"

text \<open>
  \<open>execute\<close>:
  \<^verbatim>\<open>
  l_cs_value, r_cs_value, beta_value = self._obtain_initial_values()
  component_r0 = self._obtain_initial_component_r0()
  weights = self._obtain_weights()
  self._minimize_objective(l_cs_value, r_cs_value, beta_value, component_r0, weights, ...)
  self._store_final_state_data(weights)
  \<close>
\<close>

definition execute ::
  "(matrix \<Rightarrow> matrix \<Rightarrow> real list \<Rightarrow> matrix \<Rightarrow> nat \<Rightarrow> real list) \<Rightarrow> (matrix \<Rightarrow> real list)
     \<Rightarrow> left_constructor \<Rightarrow> right_constructor \<Rightarrow> fit_args \<Rightarrow> IterativeFitting
     \<Rightarrow> ((error \<times> IterativeFitting) + IterativeFitting) option" where
  "execute helper weight_setting mk_left mk_right args self =
     (case obtain_initial_values self of
        ((l_cs_value, r_cs_value, beta_value), self1) \<Rightarrow>
     (case obtain_initial_component_r0 helper self1 of
        (component_r0, self2) \<Rightarrow>
     (case obtain_weights weight_setting self2 of
        (Inl e, self3) \<Rightarrow> Some (Inl (e, self3))
      | (Inr weights, self3) \<Rightarrow>
          (case fit_minimize_objective mk_left mk_right l_cs_value r_cs_value beta_value
                  component_r0 weights args self3 of
             None \<Rightarrow> None
           | Some (Inl x) \<Rightarrow> Some (Inl x)
           | Some (Inr self4) \<Rightarrow> Some (Inr (store_final_state_data weights self4))))))"

subsection \<open>The day weights of \<open>IterativeClearSky.__init__\<close>\<close>

text \<open>
  \<^verbatim>\<open>
  tc = np.linalg.norm(D[:-2] - 2 * D[1:-1] + D[2:], ord=1, axis=0)
  tc = np.percentile(tc, 50) - tc
  tc /= np.max(tc)
  tc = np.clip(tc, 0, None)
  de = np.sum(D, axis=0)
  x = cvx.Variable(len(tc))
  ...
  prob.solve(solver='MOSEK')
  de = np.clip(np.divide(de, x.value), 0, 1)
  th = .1
  self.weights = np.multiply(np.power(tc, th), np.power(de, 1.-th))
  self.weights[self.weights < 0.6] = 0.
  \<close>
  The solved envelope \<open>x.value\<close> is the parameter \<open>x_value\<close>; it is \<open>None\<close> when the solver
  found no solution (the source does not look at the status here). The two divisions are
  numpy divisions: a zero divisor gives an infinity or not-a-number, not an exception.
\<close>

text \<open>\<open>np.linalg.norm(M, ord=1, axis=0)\<close> for a matrix of \<open>n\<close> columns: the sum of the
  absolute values of each column.\<close>

definition norm1_axis0 :: "nat \<Rightarrow> matrix \<Rightarrow> real list" where
  "norm1_axis0 n M = map (\<lambda>j. sum_list (map (\<lambda>r. \<bar>r ! j\<bar>) M)) [0..<n]"

text \<open>\<open>np.sum(M, axis=0)\<close> for a matrix of \<open>n\<close> columns.\<close>

definition sum_axis0 :: "nat \<Rightarrow> matrix \<Rightarrow> real list" where
  "sum_axis0 n M = map (\<lambda>j. sum_list (map (\<lambda>r. r ! j) M)) [0..<n]"

text \<open>\<open>np.percentile(xs, 50)\<close> of a non-empty array, with numpy's linear interpolation
  between the two middle entries of the sorted array.\<close>

definition percentile50 :: "real list \<Rightarrow> real" where
  "percentile50 xs =
     (let s = sort xs; n = length s; lo = (n - 1) div 2; hi = n div 2
      in s ! lo + (s ! hi - s ! lo) * (if even n then 0.5 else 0))"

text \<open>\<open>np.max\<close> of a non-empty array.\<close>

definition np_max :: "real list \<Rightarrow> real" where
  "np_max xs = fold max (tl xs) (hd xs)"

text \<open>\<open>np.clip(a, 0, None)\<close> and \<open>np.clip(a, 0, 1)\<close>; not-a-number stays.\<close>

fun clip_0_None :: "npfloat \<Rightarrow> npfloat" where
  "clip_0_None (Fin a) = Fin (max a 0)"
| "clip_0_None PInf = PInf"
| "clip_0_None NInf = Fin 0"
| "clip_0_None NaN = NaN"

fun clip_0_1 :: "npfloat \<Rightarrow> npfloat" where
  "clip_0_1 (Fin a) = Fin (min (max a 0) 1)"
| "clip_0_1 PInf = Fin 1"
| "clip_0_1 NInf = Fin 0"
| "clip_0_1 NaN = NaN"

text \<open>\<open>np.power(a, p)\<close> for an exponent \<open>p > 0\<close> that is not an integer (0.1 and 0.9 in the
  source): not-a-number on a negative base.\<close>

fun np_power :: "npfloat \<Rightarrow> real \<Rightarrow> npfloat" where
  "np_power (Fin a) p = (if a < 0 then NaN else Fin (a powr p))"
| "np_power PInf p = PInf"
| "np_power NInf p = PInf"
| "np_power NaN p = NaN"

fun np_multiply :: "npfloat \<Rightarrow> npfloat \<Rightarrow> npfloat" where
  "np_multiply (Fin a) (Fin b) = Fin (a * b)"
| "np_multiply NaN b = NaN"
| "np_multiply a NaN = NaN"
| "np_multiply PInf (Fin b) = (if b > 0 then PInf else if b < 0 then NInf else NaN)"
| "np_multiply NInf (Fin b) = (if b > 0 then NInf else if b < 0 then PInf else NaN)"
| "np_multiply (Fin a) PInf = (if a > 0 then PInf else if a < 0 then NInf else NaN)"
| "np_multiply (Fin a) NInf = (if a > 0 then NInf else if a < 0 then PInf else NaN)"
| "np_multiply PInf PInf = PInf"
| "np_multiply NInf NInf = PInf"
| "np_multiply PInf NInf = NInf"
| "np_multiply NInf PInf = NInf"

text \<open>The temporal-consistency score \<open>tc\<close> and the energy-ratio score \<open>de\<close>.\<close>

definition tc_score :: "matrix \<Rightarrow> error + npfloat list" where
  "tc_score D =
     (let tc0 = norm1_axis0 (shape1 D) (second_diff_rows D);
          tc1 = map (\<lambda>t. percentile50 tc0 - t) tc0
      in if tc0 = [] then Inl ValueError
         else Inr (map (\<lambda>t. clip_0_None (np_divide t (np_max tc1))) tc1))"

definition de_score :: "matrix \<Rightarrow> real list option \<Rightarrow> error + npfloat list" where
  "de_score D x_value =
     (case x_value of
        None \<Rightarrow> Inl TypeError
      | Some x \<Rightarrow> Inr (map2 (\<lambda>d v. clip_0_1 (np_divide d v)) (sum_axis0 (shape1 D) D) x))"

text \<open>The combined score \<open>np.multiply(np.power(tc, th), np.power(de, 1.-th))\<close>, before the
  threshold.\<close>

definition combined_score :: "matrix \<Rightarrow> real list option \<Rightarrow> error + npfloat list" where
  "combined_score D x_value =
     (case tc_score D of
        Inl e \<Rightarrow> Inl e
      | Inr tc \<Rightarrow>
     (case de_score D x_value of
        Inl e \<Rightarrow> Inl e
      | Inr de \<Rightarrow> Inr (map2 (\<lambda>t d. np_multiply (np_power t 0.1) (np_power d (1 - 0.1))) tc de)))"

text \<open>\<open>self.weights[self.weights < 0.6] = 0.\<close>\<close>

definition threshold :: "npfloat list \<Rightarrow> npfloat list" where
  "threshold w = map (\<lambda>v. if np_lt v (Fin 0.6) then Fin 0 else v) w"

definition init_weights :: "matrix \<Rightarrow> real list option \<Rightarrow> error + npfloat list" where
  "init_weights D x_value =
     (case combined_score D x_value of
        Inl e \<Rightarrow> Inl e
      | Inr w \<Rightarrow> Inr (threshold w))"

text \<open>An entry of the weight vector lies in \<open>[0, 1]\<close>.\<close>

fun in_unit_interval :: "npfloat \<Rightarrow> bool" where
  "in_unit_interval (Fin a) = (0 \<le> a \<and> a \<le> 1)"
| "in_unit_interval x = False"

subsection \<open>What a constraint of \<open>min_L\<close> says of a solution\<close>



subsection \<open>What a caller can read from the object\<close>

text \<open>
  \<open>published\<close>: the values behind the result accessors (\<open>l_cs_value\<close>, \<open>r_cs_value\<close>,
  \<open>beta_value\<close>) and the three residual statistics that \<open>_analyze_residuals\<close> writes.
  \<open>snapshot\<close>: the iterate stored in the state data by
  \<open>_store_minimization_state_data\<close>.
\<close>

definition published :: "IterativeFitting \<Rightarrow> (matrix \<times> matrix \<times> real) \<times>
    (npfloat option \<times> npfloat option \<times> real option)" where
  "published self =
     ((fit_l_cs_value self, fit_r_cs_value self, fit_beta_value self),
      (fit_residuals_median self, fit_residuals_variance self, fit_residual_l0_norm self))"

definition snapshot :: "IterativeFitting \<Rightarrow> matrix \<times> matrix \<times> real \<times> real list" where
  "snapshot self =
     (sd_l_value (fit_state_data self), sd_r_value (fit_state_data self),
      sd_beta_value (fit_state_data self), sd_component_r0 (fit_state_data self))"

subsection \<open>Loop invariants\<close>

text \<open>
  What holds at the head of every iteration of the two loops when the exit threshold is
  positive: the counter is at most \<open>max(1, max_iteration)\<close>, and once it is at least 1 and
  has reached \<open>max_iteration\<close> the tested improvement is the forced \<open>0.\<close> and the line
  \<open>Reached iteration limit\<close> is the last one printed.
\<close>

definition fit_cap_invariant :: "fit_args \<Rightarrow> fit_locals \<Rightarrow> bool" where
  "fit_cap_invariant args lv =
     (int (lv_iteration lv) \<le> max 1 (arg_max_iteration args) \<and>
      (1 \<le> lv_iteration lv \<and> arg_max_iteration args \<le> int (lv_iteration lv) \<longrightarrow>
         lv_improvement lv = Fin 0 \<and>
         (arg_verbose args \<longrightarrow>
            fit_printed (lv_self lv) \<noteq> [] \<and>
            (\<exists>imp. last (fit_printed (lv_self lv)) = Reached_iteration_limit imp))))"

definition ics_cap_invariant :: "int \<Rightarrow> ics_state \<Rightarrow> bool" where
  "ics_cap_invariant max_iter st =
     (case st of (improvement, old_obj, it, self) \<Rightarrow>
        int it \<le> max 1 max_iter \<and>
        (1 \<le> it \<and> max_iter \<le> int it \<longrightarrow>
           improvement = Fin 0 \<and> ics_printed self \<noteq> [] \<and>
           (\<exists>i. last (ics_printed self) = Reached_iteration_limit i)))"

definition ics_it :: "ics_state \<Rightarrow> nat" where
  "ics_it st = (case st of (improvement, old_obj, it, self) \<Rightarrow> it)"

definition ics_self :: "ics_state \<Rightarrow> IterativeClearSky" where
  "ics_self st = (case st of (improvement, old_obj, it, self) \<Rightarrow> self)"

subsection \<open>Concrete inputs\<close>








text \<open>
  A fit of one sample on one day, \<open>D = [[10]]\<close>, with rank 1 and \<open>L = [[1]]\<close>: with the
  default \<open>tau = 0.8\<close> and weight \<open>w\<close> the objective of \<open>R = [[r]]\<close> is
  \<open>(0.5 |10 - r| + 0.3 (10 - r)) w\<close>, all smoothness terms being zero. \<open>keep_left\<close> and
  \<open>keep_right\<close> build minimizers that return their arguments; \<open>stepping_right\<close> moves
  \<open>R\<close> from \<open>[[0]]\<close> to \<open>[[5]]\<close> and from anything else to \<open>[[3]]\<close>, so that the objective
  goes 8, 4, 5.6; \<open>breaking_right\<close> makes the first step and then reports an infeasible
  problem.
\<close>

definition fresh_state_data :: StateData where
  "fresh_state_data =
     \<lparr>sd_mu_l = None, sd_mu_r = None, sd_tau = None, sd_l_value = [], sd_r_value = [],
      sd_beta_value = 0, sd_component_r0 = [], sd_weights = [], sd_f1_increase = False,
      sd_obj_increase = False, sd_is_solver_error = False, sd_is_problem_status_error = False,
      sd_residuals_median = None, sd_residuals_variance = None, sd_residual_l0_norm = None\<rparr>"

definition tiny_fit :: IterativeFitting where
  "tiny_fit =
     \<lparr>fit_power_signals_d = [[10]], fit_rank_k = 1, fit_left_low_rank_matrix_u = [[1]],
      fit_singular_values_sigma = [10], fit_right_low_rank_matrix_v = [[1]],
      fit_matrix_l0 = [[1]], fit_test_days = None, fit_state_data = fresh_state_data,
      fit_l_cs_value = [[1]], fit_r_cs_value = [[10]], fit_beta_value = 0,
      fit_residuals_median = None, fit_residuals_variance = None,
      fit_residual_l0_norm = None, fit_printed = []\<rparr>"

definition keep_left :: left_constructor where
  "keep_left D k w tau mu_l = Inr"

definition keep_right :: right_constructor where
  "keep_right D k w tau mu_r r0 calc mx mn = Inr"

definition stepping_right :: right_constructor where
  "stepping_right D k w tau mu_r r0 calc mx mn =
     (\<lambda>(l, r, b). Inr (l, (if r = [[0]] then [[5]] else [[3]]), b))"

definition quiet_args :: fit_args where
  "quiet_args = default_args\<lparr>arg_verbose := False\<rparr>"

definition breaking_right :: right_constructor where
  "breaking_right D k w tau mu_r r0 calc mx mn =
     (\<lambda>(l, r, b). if r = [[0]] then Inr (l, [[5]], b)
                 else Inl (ProblemStatusError ''Minimize R status: infeasible''))"

text \<open>A left minimizer whose solver fails on every call.\<close>

definition failing_left :: left_constructor where
  "failing_left D k w tau mu_l = (\<lambda>x. Inl SolverError)"

definition args_eps0_cap1 :: fit_args where
  "args_eps0_cap1 = quiet_args\<lparr>arg_exit_criterion_epsilon := Fin 0, arg_max_iteration := 1\<rparr>"

definition args_cap0 :: fit_args where
  "args_cap0 = quiet_args\<lparr>arg_max_iteration := 0\<rparr>"

definition args_cap1 :: fit_args where
  "args_cap1 = quiet_args\<lparr>arg_max_iteration := 1\<rparr>"

definition args_cap2 :: fit_args where
  "args_cap2 = quiet_args\<lparr>arg_max_iteration := 2\<rparr>"

text \<open>The same data for \<open>IterativeClearSky\<close>, with solvers that answer \<open>optimal\<close>.\<close>

definition tiny_ics :: IterativeClearSky where
  "tiny_ics =
     \<lparr>ics_D = [[10]], ics_k = 1, ics_L_cs = [[1]], ics_R_cs = [[0]], ics_beta = 0,
      ics_good_fit = False, ics_r0 = [0], ics_mu_L = 1, ics_mu_R = 20, ics_tau = 0.8,
      ics_weights = [1], ics_test_days = None, ics_printed = []\<rparr>"

definition tiny_solve_L :: "IterativeClearSky \<Rightarrow> constraint_L list \<Rightarrow> matrix solve_result" where
  "tiny_solve_L self cs = Status ''optimal'' [[1]]"

definition tiny_solve_R ::
  "IterativeClearSky \<Rightarrow> constraint_R list \<Rightarrow> (matrix \<times> real) solve_result" where
  "tiny_solve_R self cs =
     Status ''optimal'' (if ics_R_cs self = [[0]] then [[5]] else [[3]], 0)"

section \<open>Properties\<close>

subsection \<open>Helper lemmas on slices and norms\<close>






lemma calc_objective_calls:
  "calc_objective self True = Inl (calc_objective_sum self)"
  "calc_objective self False = Inr (calc_objective_components self)"
  by (simp_all add: calc_objective_def calculate_objective_def calc_objective_sum_def
      calc_objective_components_def Let_def)

lemma calculate_objective_components:
  "calculate_objective D rank_k mu_l mu_r tau L R beta_value weights False
   = Inr (objective_components D rank_k mu_l mu_r tau L R beta_value weights)"
  by (simp add: calculate_objective_def Let_def)

subsection \<open>Helper lemmas on the loop\<close>

lemma while_raising_iterates:
  "iterates c b s s' \<Longrightarrow> while_raising c b s = while_raising c b s'"
proof (induction rule: iterates.induct)
  case iterates_start
  show ?case by simp
next
  case (iterates_step s1 s2)
  have "while_raising c b s1 = while_raising c b s2"
    using iterates_step.hyps(2,3) by (subst while_raising.simps) simp
  with iterates_step.IH show ?case by simp
qed

lemma iterates_invariant:
  assumes "iterates c b s s'" and "I s"
    and "\<And>x y. I x \<Longrightarrow> c x \<Longrightarrow> b x = Inr y \<Longrightarrow> I y"
  shows "I s'"
  using assms(1) assms(2)
proof (induction rule: iterates.induct)
  case iterates_start
  then show ?case by simp
next
  case (iterates_step s1 s2)
  then show ?case using assms(3) by blast
qed

lemma while_raising_result:
  fixes c :: "'s \<Rightarrow> bool" and b :: "'s \<Rightarrow> 'e + 's"
  assumes "while_raising c b s = Some r"
  shows "case r of
           Inr s' \<Rightarrow> iterates c b s s' \<and> \<not> c s'
         | Inl e \<Rightarrow> \<exists>s0. iterates c b s s0 \<and> c s0 \<and> b s0 = Inl e"
proof -
  let ?P = "\<lambda>c b s r. \<forall>s0. iterates c b s0 s \<longrightarrow>
          (case r of
             Inr s' \<Rightarrow> iterates c b s0 s' \<and> \<not> c s'
           | Inl e \<Rightarrow> \<exists>s1. iterates c b s0 s1 \<and> c s1 \<and> b s1 = Inl e)"
  have "?P c b s r"
  proof (rule while_raising.raw_induct [where P = ?P, OF _ assms])
    fix w :: "('s \<Rightarrow> bool) \<Rightarrow> ('s \<Rightarrow> 'e + 's) \<Rightarrow> 's \<Rightarrow> ('e + 's) option"
      and c b s r
    assume IH: "\<And>c b s y. w c b s = Some y \<Longrightarrow> ?P c b s y"
      and unfold: "(if c s then case b s of Inl e \<Rightarrow> Some (Inl e) | Inr s' \<Rightarrow> w c b s'
                    else Some (Inr s)) = Some r"
    show "?P c b s r"
    proof (intro allI impI)
      fix s0 assume reach: "iterates c b s0 s"
      show "case r of Inr s' \<Rightarrow> iterates c b s0 s' \<and> \<not> c s'
            | Inl e \<Rightarrow> \<exists>s1. iterates c b s0 s1 \<and> c s1 \<and> b s1 = Inl e"
      proof (cases "c s")
        case False
        with unfold have "r = Inr s" by simp
        with False reach show ?thesis by simp
      next
        case True
        show ?thesis
        proof (cases "b s")
          case (Inl e)
          with True unfold have "r = Inl e" by simp
          with True Inl reach show ?thesis by auto
        next
          case (Inr s')
          with True unfold have "w c b s' = Some r" by simp
          moreover have "iterates c b s0 s'"
            using reach True Inr by (rule iterates_step)
          ultimately show ?thesis using IH by blast
        qed
      qed
    qed
  qed
  then have "iterates c b s s \<longrightarrow>
          (case r of
             Inr s' \<Rightarrow> iterates c b s s' \<and> \<not> c s'
           | Inl e \<Rightarrow> \<exists>s1. iterates c b s s1 \<and> c s1 \<and> b s1 = Inl e)"
    by (rule spec)
  then show ?thesis by (simp add: iterates_start)
qed

lemma while_raising_terminates:
  fixes m :: "'s \<Rightarrow> nat"
  assumes "I s"
    and "\<And>x y. I x \<Longrightarrow> c x \<Longrightarrow> b x = Inr y \<Longrightarrow> I y \<and> m y < m x"
  shows "\<exists>r. while_raising c b s = Some r"
  using assms(1)
proof (induction "m s" arbitrary: s rule: less_induct)
  case less
  show ?case
  proof (cases "c s")
    case False
    then show ?thesis by (subst while_raising.simps) simp
  next
    case True
    show ?thesis
    proof (cases "b s")
      case (Inl e)
      with True show ?thesis by (subst while_raising.simps) simp
    next
      case (Inr s')
      with True less.prems assms(2) have "I s'" and "m s' < m s" by blast+
      then obtain r where "while_raising c b s' = Some r" using less.hyps by blast
      with True Inr show ?thesis by (subst while_raising.simps) simp
    qed
  qed
qed

lemma while_raising_diverges:
  assumes "I s"
    and "\<And>x. I x \<Longrightarrow> c x \<and> (\<exists>y. b x = Inr y \<and> I y)"
  shows "while_raising c b s = None"
proof (rule ccontr)
  assume "while_raising c b s \<noteq> None"
  then obtain r where r: "while_raising c b s = Some r" by auto
  have inv: "I s'" if "iterates c b s s'" for s'
    using that assms(1)
  proof (rule iterates_invariant)
    fix x y assume "I x" "c x" "b x = Inr y"
    with assms(2) [of x] show "I y" by auto
  qed
  show False
  proof (cases r)
    case (Inl e)
    with while_raising_result [OF r] obtain s0 where "iterates c b s s0" "b s0 = Inl e" by auto
    with inv assms(2) [of s0] show False by auto
  next
    case (Inr s')
    with while_raising_result [OF r] have "iterates c b s s'" "\<not> c s'" by auto
    with inv assms(2) [of s'] show False by auto
  qed
qed

subsection \<open>Evaluating the concrete inputs\<close>

text \<open>
  The objective on the one-by-one data, and the definitions that the simplifier unfolds to
  run the two loops on it.
\<close>

lemma obj_tiny [simp]:
  "objective_components [[10]] (Suc 0) 1 20 (4/5) [[1]] [[r]] b [w]
   = [(0.5 * \<bar>10 - r\<bar> + (4/5 - 0.5) * (10 - r)) * w, 0, 0, 0]"
  by (simp add: objective_components_def term_f1_def term_f2_def term_f3_def term_f4_def
      mat_dot_def mat_sub_def mat_add_def mat_scale_def mat_abs_def mat_sum_def diag_def
      shape1_def second_diff_rows_def second_diff_cols_def slice_to_neg_def slice_from_def
      slice_inner_def norm_fro_def eye_def)


lemma ics_tiny_objective:
  "calc_objective_sum (tiny_ics\<lparr>ics_L_cs := [[1]], ics_R_cs := [[r]], ics_beta := b, ics_r0 := q\<rparr>)
   = \<bar>10 - r\<bar> / 2 + (30 - 3 * r) / 10"
  by (simp add: calc_objective_sum_def tiny_ics_def)

lemmas tiny_run_defs =
  fit_loop_def while_raising.simps fit_cond_def fit_initial_def quiet_args_def
  default_args_def tiny_fit_def fit_print_def fit_body_def left_matric_minimization_def
  right_matric_minimization_def keep_left_def keep_right_def stepping_right_def
  breaking_right_def store_minimization_state_data_def Let_def np_divide_def
  set_f1_increase_def set_obj_increase_def

lemmas tiny_ics_run_defs =
  minimize_objective_loop_def while_raising.simps ics_cond_def ics_initial_def ics_body_def
  zero_test_days_def min_L_def min_R_def tiny_solve_L_def tiny_solve_R_def ics_print_def
  Let_def np_divide_def ics_it_def ics_self_def calc_objective_sum_def
  calc_objective_components_def tiny_ics_def shape1_def

subsection \<open>C1: the iteration cap\<close>

lemma np_ge_zero_eps:
  assumes "np_lt (Fin 0) eps"
  shows "\<not> np_ge (Fin 0) eps"
  using assms by (cases eps) auto

lemma fit_body_iteration:
  assumes "fit_body left_minimize right_minimize weights args lv = Inr lv'"
  shows "lv_iteration lv' = lv_iteration lv + 1 \<and>
         (arg_max_iteration args \<le> int (lv_iteration lv') \<longrightarrow>
            lv_improvement lv' = Fin 0 \<and>
            (arg_verbose args \<longrightarrow>
               fit_printed (lv_self lv') \<noteq> [] \<and>
               (\<exists>imp. last (fit_printed (lv_self lv')) = Reached_iteration_limit imp)))"
  using assms
  by (auto simp: fit_body_def Let_def fit_print_def store_minimization_state_data_def
      split: sum.splits prod.splits list.splits if_splits)

lemma fit_cap_invariant_step:
  assumes eps: "np_lt (Fin 0) (arg_exit_criterion_epsilon args)"
    and inv: "fit_cap_invariant args lv"
    and cond: "fit_cond args lv"
    and body: "fit_body left_minimize right_minimize weights args lv = Inr lv'"
  shows "fit_cap_invariant args lv' \<and>
         nat (max 1 (arg_max_iteration args)) - lv_iteration lv'
           < nat (max 1 (arg_max_iteration args)) - lv_iteration lv"
proof -
  have not_capped: "\<not> (1 \<le> lv_iteration lv \<and> arg_max_iteration args \<le> int (lv_iteration lv))"
  proof
    assume "1 \<le> lv_iteration lv \<and> arg_max_iteration args \<le> int (lv_iteration lv)"
    with inv have "lv_improvement lv = Fin 0" by (simp add: fit_cap_invariant_def)
    with cond np_ge_zero_eps [OF eps] show False by (simp add: fit_cond_def)
  qed
  then have below: "int (lv_iteration lv) + 1 \<le> max 1 (arg_max_iteration args)" by auto
  from fit_body_iteration [OF body] below show ?thesis
    by (auto simp: fit_cap_invariant_def)
qed

lemma fit_cap_invariant_initial:
  "fit_cap_invariant args (fit_initial l_cs_value r_cs_value beta_value component_r0 weights args self)"
  by (simp add: fit_cap_invariant_def fit_initial_def Let_def)

lemma fit_iteration_cap:
  assumes eps: "np_lt (Fin 0) (arg_exit_criterion_epsilon args)"
  shows "(\<exists>r. fit_loop mk_left mk_right l_cs_value r_cs_value beta_value component_r0 weights
                 args self = Some r) \<and>
         (\<forall>lv. iterates (fit_cond args)
                  (fit_body (left_matric_minimization mk_left weights args self)
                     (right_matric_minimization mk_right component_r0 weights args self)
                     weights args)
                  (fit_initial l_cs_value r_cs_value beta_value component_r0 weights args self) lv
                \<longrightarrow>
                int (lv_iteration lv) \<le> max 1 (arg_max_iteration args) \<and>
                (1 \<le> lv_iteration lv \<and> arg_max_iteration args \<le> int (lv_iteration lv) \<longrightarrow>
                   \<not> fit_cond args lv \<and>
                   (arg_verbose args \<longrightarrow>
                      fit_printed (lv_self lv) \<noteq> [] \<and>
                      (\<exists>imp. last (fit_printed (lv_self lv)) = Reached_iteration_limit imp))))"
    (is "?stops \<and> ?bounded")
proof
  let ?b = "fit_body (left_matric_minimization mk_left weights args self)
              (right_matric_minimization mk_right component_r0 weights args self) weights args"
  let ?init = "fit_initial l_cs_value r_cs_value beta_value component_r0 weights args self"
  have "\<exists>r. while_raising (fit_cond args) ?b ?init = Some r"
  proof (rule while_raising_terminates
      [where I = "fit_cap_invariant args"
         and m = "\<lambda>lv. nat (max 1 (arg_max_iteration args)) - lv_iteration lv"])
    show "fit_cap_invariant args ?init" by (rule fit_cap_invariant_initial)
  next
    fix x y assume "fit_cap_invariant args x" "fit_cond args x" "?b x = Inr y"
    with eps show "fit_cap_invariant args y \<and>
         nat (max 1 (arg_max_iteration args)) - lv_iteration y
           < nat (max 1 (arg_max_iteration args)) - lv_iteration x"
      by (rule fit_cap_invariant_step)
  qed
  then show ?stops by (simp add: fit_loop_def)
  show ?bounded
  proof (intro allI impI)
    fix lv assume reach: "iterates (fit_cond args) ?b ?init lv"
    have inv: "fit_cap_invariant args lv"
      using reach fit_cap_invariant_initial
    proof (rule iterates_invariant)
      fix x y assume "fit_cap_invariant args x" "fit_cond args x" "?b x = Inr y"
      with eps fit_cap_invariant_step show "fit_cap_invariant args y" by blast
    qed
    then show "int (lv_iteration lv) \<le> max 1 (arg_max_iteration args) \<and>
                (1 \<le> lv_iteration lv \<and> arg_max_iteration args \<le> int (lv_iteration lv) \<longrightarrow>
                   \<not> fit_cond args lv \<and>
                   (arg_verbose args \<longrightarrow>
                      fit_printed (lv_self lv) \<noteq> [] \<and>
                      (\<exists>imp. last (fit_printed (lv_self lv)) = Reached_iteration_limit imp)))"
      using np_ge_zero_eps [OF eps] by (auto simp: fit_cap_invariant_def fit_cond_def)
  qed
qed


lemma ics_body_iteration:
  assumes "ics_body solve_L solve_R max_iter calc_deg max_deg min_deg (imp, old, it, self)
           = Inr (imp', old', it', self')"
  shows "it' = it + 1 \<and>
         (max_iter \<le> int it' \<longrightarrow>
            imp' = Fin 0 \<and> ics_printed self' \<noteq> [] \<and>
            (\<exists>i. last (ics_printed self') = Reached_iteration_limit i))"
  using assms
  by (auto simp: ics_body_def Let_def ics_print_def split: sum.splits if_splits)

lemma ics_cap_invariant_step:
  assumes eps: "np_lt (Fin 0) eps"
    and inv: "ics_cap_invariant max_iter st"
    and cond: "ics_cond eps st"
    and body: "ics_body solve_L solve_R max_iter calc_deg max_deg min_deg st = Inr st'"
  shows "ics_cap_invariant max_iter st' \<and>
         nat (max 1 max_iter) - ics_it st' < nat (max 1 max_iter) - ics_it st"
proof -
  obtain imp old it self where st: "st = (imp, old, it, self)" by (cases st) auto
  obtain imp' old' it' self' where st': "st' = (imp', old', it', self')" by (cases st') auto
  have not_capped: "\<not> (1 \<le> it \<and> max_iter \<le> int it)"
  proof
    assume "1 \<le> it \<and> max_iter \<le> int it"
    with inv st have "imp = Fin 0" by (simp add: ics_cap_invariant_def)
    with cond st np_ge_zero_eps [OF eps] show False by (simp add: ics_cond_def)
  qed
  then have below: "int it + 1 \<le> max 1 max_iter" by auto
  from ics_body_iteration [OF body [unfolded st st']] below show ?thesis
    by (auto simp: ics_cap_invariant_def ics_it_def st st')
qed

lemma ics_iteration_cap:
  assumes eps: "np_lt (Fin 0) eps"
  shows "(\<exists>r. minimize_objective_loop solve_L solve_R eps max_iter calc_deg max_deg min_deg self
                 = Some r) \<and>
         (\<forall>st. iterates (ics_cond eps)
                  (ics_body solve_L solve_R max_iter calc_deg max_deg min_deg)
                  (ics_initial self) st
                \<longrightarrow>
                int (ics_it st) \<le> max 1 max_iter \<and>
                (1 \<le> ics_it st \<and> max_iter \<le> int (ics_it st) \<longrightarrow>
                   \<not> ics_cond eps st \<and> ics_printed (ics_self st) \<noteq> [] \<and>
                   (\<exists>i. last (ics_printed (ics_self st)) = Reached_iteration_limit i)))"
    (is "?stops \<and> ?bounded")
proof
  let ?b = "ics_body solve_L solve_R max_iter calc_deg max_deg min_deg"
  have init: "ics_cap_invariant max_iter (ics_initial self)"
    by (simp add: ics_cap_invariant_def ics_initial_def Let_def)
  have "\<exists>r. while_raising (ics_cond eps) ?b (ics_initial self) = Some r"
  proof (rule while_raising_terminates
      [where I = "ics_cap_invariant max_iter"
         and m = "\<lambda>st. nat (max 1 max_iter) - ics_it st"])
    show "ics_cap_invariant max_iter (ics_initial self)" by (rule init)
  next
    fix x y assume "ics_cap_invariant max_iter x" "ics_cond eps x" "?b x = Inr y"
    with eps show "ics_cap_invariant max_iter y \<and>
         nat (max 1 max_iter) - ics_it y < nat (max 1 max_iter) - ics_it x"
      by (rule ics_cap_invariant_step)
  qed
  then show ?stops by (simp add: minimize_objective_loop_def)
  show ?bounded
  proof (intro allI impI)
    fix st assume reach: "iterates (ics_cond eps) ?b (ics_initial self) st"
    have inv: "ics_cap_invariant max_iter st"
      using reach init
    proof (rule iterates_invariant)
      fix x y assume "ics_cap_invariant max_iter x" "ics_cond eps x" "?b x = Inr y"
      with eps ics_cap_invariant_step show "ics_cap_invariant max_iter y" by blast
    qed
    obtain imp old it s where st: "st = (imp, old, it, s)" by (cases st) auto
    from inv show "int (ics_it st) \<le> max 1 max_iter \<and>
                (1 \<le> ics_it st \<and> max_iter \<le> int (ics_it st) \<longrightarrow>
                   \<not> ics_cond eps st \<and> ics_printed (ics_self st) \<noteq> [] \<and>
                   (\<exists>i. last (ics_printed (ics_self st)) = Reached_iteration_limit i))"
      using np_ge_zero_eps [OF eps]
      by (auto simp: ics_cap_invariant_def ics_cond_def ics_it_def ics_self_def st)
  qed
qed


text \<open>
  C1, as the code has it. When the exit threshold is positive, both loops exit (with a
  state or with an exception of a minimizer); at the head of every iteration the counter
  is at most \<open>max(1, max_iteration)\<close> (the loop always runs once, also for
  \<open>max_iteration \<le> 0\<close>); and at the head that follows the iteration on which the counter
  reached \<open>max_iteration\<close> the loop condition is false whatever the improvement was:
  the loop exits on that iteration. The cap is announced by the printed line
  \<open>Reached iteration limit\<close> (in \<open>IterativeFitting\<close> only when \<open>verbose\<close> is true); the
  source stores no flag for it.
\<close>

theorem iteration_cap:
  assumes "np_lt (Fin 0) (arg_exit_criterion_epsilon args)" and "np_lt (Fin 0) eps"
  shows
    "((\<exists>r. fit_loop mk_left mk_right l_cs_value r_cs_value beta_value r0_start weights
                 args self = Some r) \<and>
      (\<forall>lv. iterates (fit_cond args)
                  (fit_body (left_matric_minimization mk_left weights args self)
                     (right_matric_minimization mk_right r0_start weights args self)
                     weights args)
                  (fit_initial l_cs_value r_cs_value beta_value r0_start weights args self) lv
                \<longrightarrow>
                int (lv_iteration lv) \<le> max 1 (arg_max_iteration args) \<and>
                (1 \<le> lv_iteration lv \<and> arg_max_iteration args \<le> int (lv_iteration lv) \<longrightarrow>
                   \<not> fit_cond args lv \<and>
                   (arg_verbose args \<longrightarrow>
                      fit_printed (lv_self lv) \<noteq> [] \<and>
                      (\<exists>imp. last (fit_printed (lv_self lv)) = Reached_iteration_limit imp))))) \<and>
     ((\<exists>r. minimize_objective_loop solve_L solve_R eps max_iter calc_deg max_deg min_deg ics
                 = Some r) \<and>
      (\<forall>st. iterates (ics_cond eps)
                  (ics_body solve_L solve_R max_iter calc_deg max_deg min_deg)
                  (ics_initial ics) st
                \<longrightarrow>
                int (ics_it st) \<le> max 1 max_iter \<and>
                (1 \<le> ics_it st \<and> max_iter \<le> int (ics_it st) \<longrightarrow>
                   \<not> ics_cond eps st \<and> ics_printed (ics_self st) \<noteq> [] \<and>
                   (\<exists>i. last (ics_printed (ics_self st)) = Reached_iteration_limit i))))"
  using fit_iteration_cap [OF assms(1)] ics_iteration_cap [OF assms(2)] by blast

theorem iteration_cap_witness:
  "np_lt (Fin 0) (arg_exit_criterion_epsilon args_cap2) \<and> np_lt (Fin 0) (Fin (1 / 1000)) \<and>
   (\<exists>r. fit_loop keep_left stepping_right [[1]] [[0]] 0 [0] [1] args_cap2 tiny_fit = Some r) \<and>
   (\<exists>r. minimize_objective_loop tiny_solve_L tiny_solve_R (Fin (1 / 1000)) 2 True (Some 0)
           (Some (- 0.25)) tiny_ics = Some r) \<and>
   map_option (map_sum fst lv_iteration)
     (fit_loop keep_left stepping_right [[1]] [[0]] 0 [0] [1] args_cap2 tiny_fit) = Some (Inr 2) \<and>
   map_option (map_sum id ics_it)
     (minimize_objective_loop tiny_solve_L tiny_solve_R (Fin (1 / 1000)) 2 True (Some 0)
        (Some (- 0.25)) tiny_ics) = Some (Inr 2) \<and>
   map_option (map_sum id (last \<circ> ics_printed \<circ> ics_self))
     (minimize_objective_loop tiny_solve_L tiny_solve_R (Fin (1 / 1000)) 2 True (Some 0)
        (Some (- 0.25)) tiny_ics) = Some (Inr (Reached_iteration_limit (Fin (2 / 5))))"
proof -
  have new: "np_lt (Fin 0) (arg_exit_criterion_epsilon args_cap2)"
    by (simp add: args_cap2_def quiet_args_def default_args_def)
  have old: "np_lt (Fin 0) (Fin (1 / 1000))" by simp
  have stops: "(\<exists>r. fit_loop keep_left stepping_right [[1]] [[0]] 0 [0] [1] args_cap2 tiny_fit
                     = Some r) \<and>
               (\<exists>r. minimize_objective_loop tiny_solve_L tiny_solve_R (Fin (1 / 1000)) 2 True
                       (Some 0) (Some (- 0.25)) tiny_ics = Some r)"
    using iteration_cap [OF new old, where mk_left = keep_left and mk_right = stepping_right
        and l_cs_value = "[[1]]" and r_cs_value = "[[0]]" and beta_value = 0
        and r0_start = "[0]" and weights = "[1]" and self = tiny_fit
        and solve_L = tiny_solve_L and solve_R = tiny_solve_R and max_iter = 2
        and calc_deg = True and max_deg = "Some 0" and min_deg = "Some (- 0.25)"
        and ics = tiny_ics]
    by blast
  have run_new: "map_option (map_sum fst lv_iteration)
     (fit_loop keep_left stepping_right [[1]] [[0]] 0 [0] [1] args_cap2 tiny_fit) = Some (Inr 2)"
    by (simp add: tiny_run_defs args_cap2_def)
  have run_old: "map_option (map_sum id ics_it)
     (minimize_objective_loop tiny_solve_L tiny_solve_R (Fin (1 / 1000)) 2 True (Some 0)
        (Some (- 0.25)) tiny_ics) = Some (Inr 2)"
    by (simp add: tiny_ics_run_defs)
  have printed: "map_option (map_sum id (last \<circ> ics_printed \<circ> ics_self))
     (minimize_objective_loop tiny_solve_L tiny_solve_R (Fin (1 / 1000)) 2 True (Some 0)
        (Some (- 0.25)) tiny_ics) = Some (Inr (Reached_iteration_limit (Fin (2 / 5))))"
    by (simp add: tiny_ics_run_defs)
  from new old stops run_new run_old printed show ?thesis by blast
qed

lemma never_exits:
  "fit_loop keep_left keep_right [[1]] [[0]] 0 [0] [1] args_eps0_cap1 tiny_fit = None"
  unfolding fit_loop_def
proof (rule while_raising_diverges
    [where I = "\<lambda>lv. lv_l_cs_value lv = [[1]] \<and> lv_r_cs_value lv = [[0]] \<and> lv_beta_value lv = 0
                    \<and> lv_old_objective_value lv = 8
                    \<and> (lv_improvement lv = PInf \<or> lv_improvement lv = Fin 0)
                    \<and> fit_power_signals_d (lv_self lv) = [[10]]
                    \<and> fit_rank_k (lv_self lv) = 1"])
  show "lv_l_cs_value (fit_initial [[1]] [[0]] 0 [0] [1] args_eps0_cap1 tiny_fit) = [[1]] \<and>
    lv_r_cs_value (fit_initial [[1]] [[0]] 0 [0] [1] args_eps0_cap1 tiny_fit) = [[0]] \<and>
    lv_beta_value (fit_initial [[1]] [[0]] 0 [0] [1] args_eps0_cap1 tiny_fit) = 0 \<and>
    lv_old_objective_value (fit_initial [[1]] [[0]] 0 [0] [1] args_eps0_cap1 tiny_fit) = 8 \<and>
    (lv_improvement (fit_initial [[1]] [[0]] 0 [0] [1] args_eps0_cap1 tiny_fit) = PInf \<or>
     lv_improvement (fit_initial [[1]] [[0]] 0 [0] [1] args_eps0_cap1 tiny_fit) = Fin 0) \<and>
    fit_power_signals_d (lv_self (fit_initial [[1]] [[0]] 0 [0] [1] args_eps0_cap1 tiny_fit))
      = [[10]] \<and>
    fit_rank_k (lv_self (fit_initial [[1]] [[0]] 0 [0] [1] args_eps0_cap1 tiny_fit)) = 1"
    by (simp add: fit_initial_def args_eps0_cap1_def quiet_args_def default_args_def
        tiny_fit_def fit_print_def)
next
  fix x :: fit_locals
  assume I: "lv_l_cs_value x = [[1]] \<and> lv_r_cs_value x = [[0]] \<and> lv_beta_value x = 0
                    \<and> lv_old_objective_value x = 8
                    \<and> (lv_improvement x = PInf \<or> lv_improvement x = Fin 0)
                    \<and> fit_power_signals_d (lv_self x) = [[10]]
                    \<and> fit_rank_k (lv_self x) = 1"
  then have c: "fit_cond args_eps0_cap1 x"
    by (auto simp: fit_cond_def args_eps0_cap1_def)
  from I have "\<exists>y. fit_body (left_matric_minimization keep_left [1] args_eps0_cap1 tiny_fit)
               (right_matric_minimization keep_right [0] [1] args_eps0_cap1 tiny_fit)
               [1] args_eps0_cap1 x = Inr y \<and>
            (lv_l_cs_value y = [[1]] \<and> lv_r_cs_value y = [[0]] \<and> lv_beta_value y = 0
                    \<and> lv_old_objective_value y = 8
                    \<and> (lv_improvement y = PInf \<or> lv_improvement y = Fin 0)
                    \<and> fit_power_signals_d (lv_self y) = [[10]]
                    \<and> fit_rank_k (lv_self y) = 1)"
    by (simp add: fit_body_def left_matric_minimization_def right_matric_minimization_def
        keep_left_def keep_right_def args_eps0_cap1_def quiet_args_def default_args_def
        fit_print_def store_minimization_state_data_def Let_def np_divide_def
        set_f1_increase_def set_obj_increase_def)
  with c show "fit_cond args_eps0_cap1 x \<and>
         (\<exists>y. fit_body (left_matric_minimization keep_left [1] args_eps0_cap1 tiny_fit)
               (right_matric_minimization keep_right [0] [1] args_eps0_cap1 tiny_fit)
               [1] args_eps0_cap1 x = Inr y \<and>
            (lv_l_cs_value y = [[1]] \<and> lv_r_cs_value y = [[0]] \<and> lv_beta_value y = 0
                    \<and> lv_old_objective_value y = 8
                    \<and> (lv_improvement y = PInf \<or> lv_improvement y = Fin 0)
                    \<and> fit_power_signals_d (lv_self y) = [[10]]
                    \<and> fit_rank_k (lv_self y) = 1))"
    by blast
qed

text \<open>
  C1 as the claim words it fails. With \<open>exit_criterion_epsilon = 0\<close> and
  \<open>max_iteration = 1\<close> the forced \<open>improvement = 0.\<close> passes the test \<open>improvement >= 0\<close>
  and the loop never exits. With \<open>max_iteration = 0\<close> (and the default threshold) the loop
  performs one iteration; with \<open>verbose = False\<close> it prints nothing when it stops at the
  cap.
\<close>

theorem cap_not_honoured:
  "arg_exit_criterion_epsilon args_eps0_cap1 = Fin 0 \<and> arg_max_iteration args_eps0_cap1 = 1 \<and>
   fit_loop keep_left keep_right [[1]] [[0]] 0 [0] [1] args_eps0_cap1 tiny_fit = None \<and>
   arg_max_iteration args_cap0 = 0 \<and>
   map_option (map_sum fst lv_iteration)
     (fit_loop keep_left keep_right [[1]] [[0]] 0 [0] [1] args_cap0 tiny_fit) = Some (Inr 1) \<and>
   map_option (map_sum fst (fit_printed \<circ> lv_self))
     (fit_loop keep_left keep_right [[1]] [[0]] 0 [0] [1] args_cap0 tiny_fit) = Some (Inr [])"
proof -
  have "map_option (map_sum fst lv_iteration)
     (fit_loop keep_left keep_right [[1]] [[0]] 0 [0] [1] args_cap0 tiny_fit) = Some (Inr 1)"
    by (simp add: tiny_run_defs args_cap0_def)
  moreover have "map_option (map_sum fst (fit_printed \<circ> lv_self))
     (fit_loop keep_left keep_right [[1]] [[0]] 0 [0] [1] args_cap0 tiny_fit) = Some (Inr [])"
    by (simp add: tiny_run_defs args_cap0_def)
  ultimately show ?thesis
    using never_exits by (simp add: args_eps0_cap1_def args_cap0_def)
qed

subsection \<open>C2: an increase of the objective\<close>

lemma np_negate_abs:
  assumes "np_lt imp (Fin 0)"
  shows "np_negate imp = np_abs imp"
  using assms by (cases imp) auto

lemma fit_objective_increase:
  assumes left: "left_minimize (lv_l_cs_value lv, lv_r_cs_value lv, lv_beta_value lv) = Inr x1"
    and right: "right_minimize x1 = Inr (l2, r2, b2)"
    and row0: "r2 \<noteq> []"
    and new: "new = sum_list (objective_components (fit_power_signals_d (lv_self lv))
                     (fit_rank_k (lv_self lv)) (arg_mu_l args) (arg_mu_r args) (arg_tau args)
                     l2 r2 b2 weights)"
    and imp: "imp = np_divide ((lv_old_objective_value lv - new) * 1) (lv_old_objective_value lv)"
    and neg: "np_lt imp (Fin 0)"
  shows "\<exists>lv'. fit_body left_minimize right_minimize weights args lv = Inr lv' \<and>
           sd_obj_increase (fit_state_data (lv_self lv')) \<and>
           lv_iteration lv' = lv_iteration lv + 1 \<and>
           lv_improvement lv' = (if arg_max_iteration args \<le> int (lv_iteration lv + 1)
                                 then Fin 0 else np_abs imp) \<and>
           fit_cond args lv' =
             (if arg_max_iteration args \<le> int (lv_iteration lv + 1)
              then np_ge (Fin 0) (arg_exit_criterion_epsilon args)
              else np_ge (np_abs imp) (arg_exit_criterion_epsilon args))"
proof -
  obtain l1 r1 b1 where x1: "x1 = (l1, r1, b1)" by (cases x1) auto
  obtain row rest where r2: "r2 = row # rest" using row0 by (cases r2) auto
  show ?thesis
    using left right neg np_negate_abs [OF neg]
    unfolding x1 r2 new imp
    by (simp add: fit_body_def Let_def fit_print_def store_minimization_state_data_def
        set_f1_increase_def set_obj_increase_def fit_cond_def)
qed

lemma ics_objective_increase:
  assumes days: "zero_test_days self = Inr self1"
    and left: "min_L solve_L self1 = Inr self2"
    and right: "min_R solve_R calc_deg max_deg min_deg self2 = Inr self3"
    and imp: "imp = np_divide ((old_obj - calc_objective_sum self3) * 1) old_obj"
    and neg: "np_lt imp (Fin 0)"
  shows "\<exists>imp' self'. ics_body solve_L solve_R max_iter calc_deg max_deg min_deg
                         (improvement, old_obj, it, self)
                       = Inr (imp', calc_objective_sum self3, it + 1, self') \<and>
           \<not> ics_good_fit self' \<and>
           imp' = (if max_iter \<le> int (it + 1) then Fin 0 else np_abs imp) \<and>
           ics_cond eps (imp', calc_objective_sum self3, it + 1, self') =
             (if max_iter \<le> int (it + 1) then np_ge (Fin 0) eps else np_ge (np_abs imp) eps)"
  using days left right neg np_negate_abs [OF neg]
  unfolding imp
  by (simp add: ics_body_def Let_def ics_print_def ics_cond_def)


text \<open>
  C2, as the code has it. In an iteration whose two minimizations succeed and whose
  fractional improvement \<open>(old - new) / old\<close> is negative, the iteration completes (no
  exception), the flag is recorded (\<open>obj_increase = True\<close> in \<open>IterativeFitting\<close>,
  \<open>good_fit = False\<close> in \<open>IterativeClearSky\<close>), and the value tested by the loop
  condition is the absolute value of the improvement, unless the counter has reached
  \<open>max_iteration\<close> on that iteration, in which case it is the forced \<open>0.\<close>.
\<close>

theorem objective_increase_is_flagged:
  assumes left: "left_minimize (lv_l_cs_value lv, lv_r_cs_value lv, lv_beta_value lv) = Inr after_left"
    and right: "right_minimize after_left = Inr (l_new, r_new, b_new)"
    and row0: "r_new \<noteq> []"
    and new: "new = sum_list (objective_components (fit_power_signals_d (lv_self lv))
                     (fit_rank_k (lv_self lv)) (arg_mu_l args) (arg_mu_r args) (arg_tau args)
                     l_new r_new b_new weights)"
    and imp: "imp = np_divide ((lv_old_objective_value lv - new) * 1) (lv_old_objective_value lv)"
    and neg: "np_lt imp (Fin 0)"
    and ics_days: "zero_test_days ics = Inr ics_a"
    and ics_left: "min_L solve_L ics_a = Inr ics_b"
    and ics_right: "min_R solve_R calc_deg max_deg min_deg ics_b = Inr ics_c"
    and ics_imp: "ics_imp = np_divide ((old_obj - calc_objective_sum ics_c) * 1) old_obj"
    and ics_neg: "np_lt ics_imp (Fin 0)"
  shows
    "(\<exists>lv'. fit_body left_minimize right_minimize weights args lv = Inr lv' \<and>
           sd_obj_increase (fit_state_data (lv_self lv')) \<and>
           lv_iteration lv' = lv_iteration lv + 1 \<and>
           lv_improvement lv' = (if arg_max_iteration args \<le> int (lv_iteration lv + 1)
                                 then Fin 0 else np_abs imp) \<and>
           fit_cond args lv' =
             (if arg_max_iteration args \<le> int (lv_iteration lv + 1)
              then np_ge (Fin 0) (arg_exit_criterion_epsilon args)
              else np_ge (np_abs imp) (arg_exit_criterion_epsilon args))) \<and>
     (\<exists>imp' ics'. ics_body solve_L solve_R max_iter calc_deg max_deg min_deg
                         (improvement, old_obj, it, ics)
                       = Inr (imp', calc_objective_sum ics_c, it + 1, ics') \<and>
           \<not> ics_good_fit ics' \<and>
           imp' = (if max_iter \<le> int (it + 1) then Fin 0 else np_abs ics_imp) \<and>
           ics_cond eps (imp', calc_objective_sum ics_c, it + 1, ics') =
             (if max_iter \<le> int (it + 1) then np_ge (Fin 0) eps
              else np_ge (np_abs ics_imp) eps))"
proof
  show "\<exists>lv'. fit_body left_minimize right_minimize weights args lv = Inr lv' \<and>
           sd_obj_increase (fit_state_data (lv_self lv')) \<and>
           lv_iteration lv' = lv_iteration lv + 1 \<and>
           lv_improvement lv' = (if arg_max_iteration args \<le> int (lv_iteration lv + 1)
                                 then Fin 0 else np_abs imp) \<and>
           fit_cond args lv' =
             (if arg_max_iteration args \<le> int (lv_iteration lv + 1)
              then np_ge (Fin 0) (arg_exit_criterion_epsilon args)
              else np_ge (np_abs imp) (arg_exit_criterion_epsilon args))"
    using left right row0 new imp neg by (rule fit_objective_increase)
  show "\<exists>imp' ics'. ics_body solve_L solve_R max_iter calc_deg max_deg min_deg
                         (improvement, old_obj, it, ics)
                       = Inr (imp', calc_objective_sum ics_c, it + 1, ics') \<and>
           \<not> ics_good_fit ics' \<and>
           imp' = (if max_iter \<le> int (it + 1) then Fin 0 else np_abs ics_imp) \<and>
           ics_cond eps (imp', calc_objective_sum ics_c, it + 1, ics') =
             (if max_iter \<le> int (it + 1) then np_ge (Fin 0) eps
              else np_ge (np_abs ics_imp) eps)"
    using ics_days ics_left ics_right ics_imp ics_neg by (rule ics_objective_increase)
qed

theorem objective_increase_is_flagged_witness:
  "np_lt (Fin (- 2 / 5)) (Fin 0) \<and>
   (\<exists>lv'. fit_body (keep_left [[10]] 1 [1] 0.8 1) (stepping_right [[10]] 1 [1] 0.8 20 [5] True None None)
            [1] quiet_args (fit_initial [[1]] [[5]] 0 [5] [1] quiet_args tiny_fit) = Inr lv' \<and>
          sd_obj_increase (fit_state_data (lv_self lv')) \<and>
          lv_improvement lv' = Fin (2 / 5) \<and> fit_cond quiet_args lv') \<and>
   (\<exists>imp' ics'. ics_body tiny_solve_L tiny_solve_R 100 True (Some 0) (Some (- 0.25))
                   (PInf, 4, 0, tiny_ics\<lparr>ics_R_cs := [[5]]\<rparr>) = Inr (imp', 28 / 5, 1, ics') \<and>
          \<not> ics_good_fit ics' \<and> imp' = Fin (2 / 5) \<and>
          ics_cond (Fin (1 / 1000)) (imp', 28 / 5, 1, ics'))"
proof -
  let ?lv = "fit_initial [[1]] [[5]] 0 [5] [1] quiet_args tiny_fit"
  let ?ics3 = "tiny_ics\<lparr>ics_L_cs := [[1]], ics_R_cs := [[3]], ics_beta := 0, ics_r0 := [3]\<rparr>"
  have left: "keep_left [[10]] 1 [1] 0.8 1 (lv_l_cs_value ?lv, lv_r_cs_value ?lv, lv_beta_value ?lv)
              = Inr ([[1]], [[5]], 0)"
    by (simp add: keep_left_def fit_initial_def Let_def)
  have right: "stepping_right [[10]] 1 [1] 0.8 20 [5] True None None ([[1]], [[5]], 0)
               = Inr ([[1]], [[3]], 0)"
    by (simp add: stepping_right_def)
  have row0: "[[3::real]] \<noteq> []" by simp
  have new: "28 / 5 = sum_list (objective_components (fit_power_signals_d (lv_self ?lv))
                     (fit_rank_k (lv_self ?lv)) (arg_mu_l quiet_args) (arg_mu_r quiet_args)
                     (arg_tau quiet_args) [[1]] [[3]] 0 [1])"
    by (simp add: fit_initial_def Let_def fit_print_def quiet_args_def default_args_def
        tiny_fit_def)
  have imp: "Fin (- 2 / 5)
             = np_divide ((lv_old_objective_value ?lv - 28 / 5) * 1) (lv_old_objective_value ?lv)"
    by (simp add: fit_initial_def Let_def fit_print_def quiet_args_def default_args_def
        tiny_fit_def np_divide_def)
  have neg: "np_lt (Fin (- 2 / 5)) (Fin 0)" by simp
  have days: "zero_test_days (tiny_ics\<lparr>ics_R_cs := [[5]]\<rparr>) = Inr (tiny_ics\<lparr>ics_R_cs := [[5]]\<rparr>)"
    by (simp add: zero_test_days_def tiny_ics_def)
  have ics_left: "min_L tiny_solve_L (tiny_ics\<lparr>ics_R_cs := [[5]]\<rparr>)
                  = Inr (tiny_ics\<lparr>ics_R_cs := [[5]], ics_L_cs := [[1]]\<rparr>)"
    by (simp add: min_L_def tiny_solve_L_def)
  have ics_right: "min_R tiny_solve_R True (Some 0) (Some (- 0.25))
                     (tiny_ics\<lparr>ics_R_cs := [[5]], ics_L_cs := [[1]]\<rparr>) = Inr ?ics3"
    by (simp add: min_R_def tiny_solve_R_def tiny_ics_def shape1_def)
  have obj3: "calc_objective_sum ?ics3 = 28 / 5"
    by (simp add: ics_tiny_objective)
  have ics_imp: "Fin (- 2 / 5) = np_divide ((4 - calc_objective_sum ?ics3) * 1) 4"
    by (simp add: ics_tiny_objective np_divide_def)
  show ?thesis
    using neg
      objective_increase_is_flagged [where left_minimize = "keep_left [[10]] 1 [1] 0.8 1"
        and right_minimize = "stepping_right [[10]] 1 [1] 0.8 20 [5] True None None"
        and lv = ?lv and after_left = "([[1]], [[5]], 0)" and l_new = "[[1]]"
        and r_new = "[[3]]" and b_new = 0 and new = "28 / 5" and weights = "[1]"
        and imp = "Fin (- 2 / 5)" and ics = "tiny_ics\<lparr>ics_R_cs := [[5]]\<rparr>"
        and ics_a = "tiny_ics\<lparr>ics_R_cs := [[5]]\<rparr>"
        and ics_b = "tiny_ics\<lparr>ics_R_cs := [[5]], ics_L_cs := [[1]]\<rparr>"
        and ics_c = ?ics3 and solve_L = tiny_solve_L and solve_R = tiny_solve_R
        and calc_deg = True and max_deg = "Some 0" and min_deg = "Some (- 0.25)"
        and ics_imp = "Fin (- 2 / 5)" and old_obj = 4
        and args = quiet_args and max_iter = 100 and it = 0
        and improvement = PInf and eps = "Fin (1 / 1000)",
        OF left right row0 new imp neg days ics_left ics_right ics_imp neg]
    by (simp add: fit_initial_def Let_def quiet_args_def default_args_def ics_tiny_objective)
       blast
qed

text \<open>
  C2 as the claim words it fails on the iteration that reaches the cap: the objective goes
  from 4 to 5.6, the improvement is \<open>-0.4\<close>, its absolute value passes the test
  \<open>>= 1e-3\<close>, yet the tested value is 0 and the loop exits after this one iteration.
\<close>

theorem cap_overrides_absolute_improvement:
  "lv_old_objective_value (fit_initial [[1]] [[5]] 0 [5] [1] args_cap1 tiny_fit) = 4 \<and>
   sum_list (objective_components [[10]] 1 1 20 0.8 [[1]] [[3]] 0 [1]) = 28 / 5 \<and>
   np_divide ((4 - 28 / 5) * 1) 4 = Fin (- 2 / 5) \<and>
   np_lt (Fin (- 2 / 5)) (Fin 0) \<and>
   np_ge (np_abs (Fin (- 2 / 5))) (arg_exit_criterion_epsilon args_cap1) \<and>
   map_option (map_sum fst lv_r_cs_value)
     (fit_loop keep_left stepping_right [[1]] [[5]] 0 [5] [1] args_cap1 tiny_fit)
     = Some (Inr [[3]]) \<and>
   map_option (map_sum fst (sd_obj_increase \<circ> fit_state_data \<circ> lv_self))
     (fit_loop keep_left stepping_right [[1]] [[5]] 0 [5] [1] args_cap1 tiny_fit)
     = Some (Inr True) \<and>
   map_option (map_sum fst lv_improvement)
     (fit_loop keep_left stepping_right [[1]] [[5]] 0 [5] [1] args_cap1 tiny_fit)
     = Some (Inr (Fin 0)) \<and>
   map_option (map_sum fst lv_iteration)
     (fit_loop keep_left stepping_right [[1]] [[5]] 0 [5] [1] args_cap1 tiny_fit)
     = Some (Inr 1)"
  by (simp add: tiny_run_defs args_cap1_def)

subsection \<open>C3: a status other than \<open>optimal\<close> raises\<close>

text \<open>
  C3. In \<open>min_L\<close> and in \<open>min_R\<close> a \<open>ProblemStatusError\<close> is raised if and only if the
  solver returned with a reported status other than \<open>optimal\<close>; the step succeeds only on
  the status \<open>optimal\<close> (and then with the solver's solution), so a non-optimal status is
  never replaced by a result.
\<close>

theorem problem_status_error_iff_not_optimal:
  "((\<exists>msg. min_L solve_L self = Inl (ProblemStatusError msg)) =
      (\<exists>status L. solve_L self (min_L_constraints self) = Status status L
                   \<and> status \<noteq> ''optimal'')) \<and>
   ((\<exists>msg. min_R solve_R calc_deg max_deg min_deg self = Inl (ProblemStatusError msg)) =
      (\<exists>status v. solve_R self (min_R_constraints calc_deg max_deg min_deg self) = Status status v
                   \<and> status \<noteq> ''optimal'')) \<and>
   ((\<exists>self'. min_L solve_L self = Inr self') =
      (\<exists>L. solve_L self (min_L_constraints self) = Status ''optimal'' L)) \<and>
   ((\<exists>self'. min_R solve_R calc_deg max_deg min_deg self = Inr self') =
      (\<exists>R b. solve_R self (min_R_constraints calc_deg max_deg min_deg self)
                = Status ''optimal'' (R, b) \<and> R \<noteq> []))"
proof (intro conjI)
  show "(\<exists>msg. min_L solve_L self = Inl (ProblemStatusError msg)) =
      (\<exists>status L. solve_L self (min_L_constraints self) = Status status L
                   \<and> status \<noteq> ''optimal'')"
    by (cases "solve_L self (min_L_constraints self)") (auto simp: min_L_def split: if_splits)
  show "(\<exists>msg. min_R solve_R calc_deg max_deg min_deg self = Inl (ProblemStatusError msg)) =
      (\<exists>status v. solve_R self (min_R_constraints calc_deg max_deg min_deg self) = Status status v
                   \<and> status \<noteq> ''optimal'')"
    by (cases "solve_R self (min_R_constraints calc_deg max_deg min_deg self)")
       (auto simp: min_R_def split: list.splits if_splits)
  show "(\<exists>self'. min_L solve_L self = Inr self') =
      (\<exists>L. solve_L self (min_L_constraints self) = Status ''optimal'' L)"
    by (cases "solve_L self (min_L_constraints self)") (auto simp: min_L_def split: if_splits)
  show "(\<exists>self'. min_R solve_R calc_deg max_deg min_deg self = Inr self') =
      (\<exists>R b. solve_R self (min_R_constraints calc_deg max_deg min_deg self)
                = Status ''optimal'' (R, b) \<and> R \<noteq> [])"
    by (cases "solve_R self (min_R_constraints calc_deg max_deg min_deg self)")
       (auto simp: min_R_def split: list.splits if_splits)
qed

subsection \<open>C4: a solver exception\<close>

lemma fit_body_keeps_published:
  assumes "fit_body left_minimize right_minimize weights args lv = Inr lv'"
  shows "published (lv_self lv') = published (lv_self lv)"
  using assms
  by (auto simp: fit_body_def Let_def published_def fit_print_def
      store_minimization_state_data_def set_f1_increase_def set_obj_increase_def
      split: sum.splits prod.splits list.splits if_splits)

lemma fit_body_raise:
  assumes "left_minimize (lv_l_cs_value lv, lv_r_cs_value lv, lv_beta_value lv) = Inl e
           \<or> (\<exists>x. left_minimize (lv_l_cs_value lv, lv_r_cs_value lv, lv_beta_value lv) = Inr x
                  \<and> right_minimize x = Inl e)"
  shows "\<exists>self_e. fit_body left_minimize right_minimize weights args lv = Inl (e, self_e)
           \<and> snapshot self_e
               = (lv_l_cs_value lv, lv_r_cs_value lv, lv_beta_value lv, lv_component_r0 lv)
           \<and> published self_e = published (lv_self lv)"
  using assms
  by (auto simp: fit_body_def Let_def published_def snapshot_def fit_print_def
      store_minimization_state_data_def)

text \<open>
  C4. Let the loop stand at the head of an iteration (\<open>iterates\<close>, with the loop condition
  true) in which the left minimizer raises \<open>SolverError\<close> or \<open>ProblemStatusError\<close>, or the
  left one succeeds and the right one raises. Then the loop ends there with that exception,
  \<open>_minimize_objective\<close> returns normally, the flag of the exception is set in the state
  data, the iterate stored in the state data is the one with which this iteration started,
  and the published accessors and the residual statistics are those of before the call.
\<close>

theorem solver_failure_keeps_last_snapshot:
  assumes reach: "iterates (fit_cond args)
                    (fit_body (left_matric_minimization mk_left weights args self)
                       (right_matric_minimization mk_right r0_start weights args self)
                       weights args)
                    (fit_initial l_cs_value r_cs_value beta_value r0_start weights args self) lv"
    and cond: "fit_cond args lv"
    and fails: "left_matric_minimization mk_left weights args self
                  (lv_l_cs_value lv, lv_r_cs_value lv, lv_beta_value lv) = Inl e
                \<or> (\<exists>x. left_matric_minimization mk_left weights args self
                          (lv_l_cs_value lv, lv_r_cs_value lv, lv_beta_value lv) = Inr x
                       \<and> right_matric_minimization mk_right r0_start weights args self x = Inl e)"
    and kind: "e = SolverError \<or> (\<exists>msg. e = ProblemStatusError msg)"
  shows "\<exists>self_e self'.
           fit_loop mk_left mk_right l_cs_value r_cs_value beta_value r0_start weights args self
             = Some (Inl (e, self_e)) \<and>
           fit_minimize_objective mk_left mk_right l_cs_value r_cs_value beta_value r0_start
             weights args self = Some (Inr self') \<and>
           (e = SolverError \<longrightarrow> sd_is_solver_error (fit_state_data self')) \<and>
           ((\<exists>msg. e = ProblemStatusError msg) \<longrightarrow>
              sd_is_problem_status_error (fit_state_data self')) \<and>
           snapshot self'
             = (lv_l_cs_value lv, lv_r_cs_value lv, lv_beta_value lv, lv_component_r0 lv) \<and>
           published self' = published self"
proof -
  let ?b = "fit_body (left_matric_minimization mk_left weights args self)
              (right_matric_minimization mk_right r0_start weights args self) weights args"
  let ?init = "fit_initial l_cs_value r_cs_value beta_value r0_start weights args self"
  have "\<exists>self_e. ?b lv = Inl (e, self_e)
           \<and> snapshot self_e
               = (lv_l_cs_value lv, lv_r_cs_value lv, lv_beta_value lv, lv_component_r0 lv)
           \<and> published self_e = published (lv_self lv)"
    using fails by (rule fit_body_raise)
  then obtain self_e where
    raised: "?b lv = Inl (e, self_e)"
    and snap: "snapshot self_e
               = (lv_l_cs_value lv, lv_r_cs_value lv, lv_beta_value lv, lv_component_r0 lv)"
    and pub: "published self_e = published (lv_self lv)"
    by blast
  have "while_raising (fit_cond args) ?b lv = Some (Inl (e, self_e))"
    using cond raised by (subst while_raising.simps) simp
  with while_raising_iterates [OF reach]
  have loop: "fit_loop mk_left mk_right l_cs_value r_cs_value beta_value r0_start weights args self
              = Some (Inl (e, self_e))"
    by (simp add: fit_loop_def)
  have "published (lv_self lv) = published self"
    using reach
  proof (rule iterates_invariant [where I = "\<lambda>lv. published (lv_self lv) = published self"])
    show "published (lv_self ?init) = published self"
      by (simp add: fit_initial_def Let_def published_def fit_print_def)
  next
    fix x y assume "published (lv_self x) = published self" "fit_cond args x" "?b x = Inr y"
    with fit_body_keeps_published [of _ _ weights args x y]
    show "published (lv_self y) = published self" by simp
  qed
  with pub have pub': "published self_e = published self" by simp
  from kind show ?thesis
  proof
    assume e: "e = SolverError"
    have "fit_minimize_objective mk_left mk_right l_cs_value r_cs_value beta_value r0_start
             weights args self
          = Some (Inr (set_is_solver_error (fit_print (arg_verbose args) Solver_failed self_e)))"
      using loop e by (simp add: fit_minimize_objective_def)
    with loop snap pub' e show ?thesis
      by (auto simp: snapshot_def published_def set_is_solver_error_def fit_print_def)
  next
    assume "\<exists>msg. e = ProblemStatusError msg"
    then obtain msg where e: "e = ProblemStatusError msg" by blast
    have "fit_minimize_objective mk_left mk_right l_cs_value r_cs_value beta_value r0_start
             weights args self
          = Some (Inr (set_is_problem_status_error
                         (fit_print (arg_verbose args) (Status_error msg) self_e)))"
      using loop e by (simp add: fit_minimize_objective_def)
    with loop snap pub' e show ?thesis
      by (auto simp: snapshot_def published_def set_is_problem_status_error_def fit_print_def)
  qed
qed


theorem solver_failure_keeps_last_snapshot_witness:
  "\<exists>self'. fit_minimize_objective keep_left breaking_right [[1]] [[0]] 0 [0] [1] quiet_args tiny_fit
              = Some (Inr self') \<and>
           sd_is_problem_status_error (fit_state_data self') \<and>
           snapshot self' = ([[1]], [[5]], 0, [5]) \<and>
           published self' = published tiny_fit"
proof -
  let ?left = "left_matric_minimization keep_left [1] quiet_args tiny_fit"
  let ?right = "right_matric_minimization breaking_right [0] [1] quiet_args tiny_fit"
  let ?b = "fit_body ?left ?right [1] quiet_args"
  let ?init = "fit_initial [[1]] [[0]] 0 [0] [1] quiet_args tiny_fit"
  let ?e = "ProblemStatusError ''Minimize R status: infeasible''"
  obtain lv1 where step: "?b ?init = Inr lv1"
    and vals: "lv_l_cs_value lv1 = [[1]]" "lv_r_cs_value lv1 = [[5]]" "lv_beta_value lv1 = 0"
      "lv_component_r0 lv1 = [5]" "lv_improvement lv1 = Fin (1 / 2)"
    by (simp add: fit_initial_def quiet_args_def default_args_def tiny_fit_def fit_print_def
        fit_body_def left_matric_minimization_def right_matric_minimization_def keep_left_def
        breaking_right_def store_minimization_state_data_def Let_def np_divide_def
        set_f1_increase_def set_obj_increase_def)
  have c0: "fit_cond quiet_args ?init"
    by (simp add: fit_cond_def fit_initial_def Let_def quiet_args_def default_args_def)
  have reach: "iterates (fit_cond quiet_args) ?b ?init lv1"
    using iterates_start c0 step by (rule iterates_step)
  have c1: "fit_cond quiet_args lv1"
    using vals by (simp add: fit_cond_def quiet_args_def default_args_def)
  have fails: "?left (lv_l_cs_value lv1, lv_r_cs_value lv1, lv_beta_value lv1) = Inl ?e
               \<or> (\<exists>x. ?left (lv_l_cs_value lv1, lv_r_cs_value lv1, lv_beta_value lv1) = Inr x
                      \<and> ?right x = Inl ?e)"
    using vals
    by (simp add: left_matric_minimization_def right_matric_minimization_def keep_left_def
        breaking_right_def)
  have kind: "?e = SolverError \<or> (\<exists>msg. ?e = ProblemStatusError msg)" by simp
  from solver_failure_keeps_last_snapshot [OF reach c1 fails kind] vals
  show ?thesis by auto
qed

subsection \<open>C5: the day weights\<close>

text \<open>
  What the weight computation of \<open>IterativeClearSky.__init__\<close> guarantees: every entry is
  not-a-number or lies in \<open>[0, 1]\<close> (\<open>weights_unit_or_nan\<close>); a day whose combined score
  is below 0.6 has weight 0 (\<open>below_threshold_is_zero\<close>); and
  \<open>weights[test_days] = 0\<close>, done at the head of every iteration of
  \<open>minimize_objective\<close> and in \<open>_obtain_weights\<close>, leaves 0 at every test day
  (\<open>zero_at_zero\<close>).
\<close>

lemma np_max_ge:
  assumes "t \<in> set xs"
  shows "t \<le> np_max xs"
proof -
  have fold_ge: "a \<le> fold max ys a" for ys and a :: real
    by (induction ys arbitrary: a) (auto intro: order_trans [OF max.cobounded2])
  have fold_mem: "t \<in> set ys \<Longrightarrow> t \<le> fold max ys a" for ys and a :: real
  proof (induction ys arbitrary: a)
    case Nil
    then show ?case by simp
  next
    case (Cons y ys)
    show ?case
    proof (cases "t = y")
      case True
      have "y \<le> max y a" by simp
      also have "\<dots> \<le> fold max ys (max y a)" by (rule fold_ge)
      finally show ?thesis using True by simp
    next
      case False
      with Cons.prems have "t \<in> set ys" by simp
      then show ?thesis using Cons.IH by simp
    qed
  qed
  from assms obtain y ys where xs: "xs = y # ys" by (cases xs) auto
  show ?thesis
  proof (cases "t = y")
    case True
    then show ?thesis using fold_ge [of y ys] by (simp add: np_max_def xs)
  next
    case False
    with assms xs have "t \<in> set ys" by simp
    then show ?thesis using fold_mem by (simp add: np_max_def xs)
  qed
qed

lemma percentile50_ge_some:
  assumes "xs \<noteq> []"
  shows "\<exists>t \<in> set xs. t \<le> percentile50 xs"
proof -
  let ?s = "sort xs"
  let ?n = "length ?s"
  have n: "0 < ?n" using assms by simp
  have sorted: "sorted ?s" by simp
  have "(?n - 1) div 2 \<le> ?n - 1" by (rule div_le_dividend)
  with n have lo: "(?n - 1) div 2 < ?n" by linarith
  have hi: "?n div 2 < ?n" using n by simp
  have le: "?s ! ((?n - 1) div 2) \<le> ?s ! (?n div 2)"
    using sorted hi by (intro sorted_nth_mono) auto
  have mem: "?s ! ((?n - 1) div 2) \<in> set xs"
    using lo nth_mem [of "(?n - 1) div 2" ?s] by simp
  have "?s ! ((?n - 1) div 2) \<le> percentile50 xs"
    using le by (simp add: percentile50_def Let_def)
  with mem show ?thesis by blast
qed

lemma tc_entry:
  assumes "tc_score D = Inr tc" and "v \<in> set tc"
  shows "v = NaN \<or> in_unit_interval v"
proof -
  let ?tc0 = "norm1_axis0 (shape1 D) (second_diff_rows D)"
  let ?tc1 = "map (\<lambda>t. percentile50 ?tc0 - t) ?tc0"
  from assms(1) have ne: "?tc0 \<noteq> []"
    and tc: "tc = map (\<lambda>t. clip_0_None (np_divide t (np_max ?tc1))) ?tc1"
    by (auto simp: tc_score_def Let_def split: if_splits)
  from assms(2) tc obtain t where t: "t \<in> set ?tc1" and v: "v = clip_0_None (np_divide t (np_max ?tc1))"
    by auto
  have t_le: "t \<le> np_max ?tc1" using t by (rule np_max_ge)
  from percentile50_ge_some [OF ne] obtain u where "u \<in> set ?tc0" "u \<le> percentile50 ?tc0"
    by blast
  then have member: "percentile50 ?tc0 - u \<in> set ?tc1"
    and nonneg: "0 \<le> percentile50 ?tc0 - u"
    by auto
  from member have "percentile50 ?tc0 - u \<le> np_max ?tc1" by (rule np_max_ge)
  with nonneg have mx: "0 \<le> np_max ?tc1" by linarith
  show ?thesis
  proof (cases "np_max ?tc1 = 0")
    case True
    with t_le v show ?thesis by (auto simp: np_divide_def)
  next
    case False
    with mx have pos: "0 < np_max ?tc1" by simp
    with t_le have "t / np_max ?tc1 \<le> 1" by (simp add: divide_le_eq)
    with pos v show ?thesis by (auto simp: np_divide_def)
  qed
qed

lemma clip_0_1_entry: "clip_0_1 x = NaN \<or> in_unit_interval (clip_0_1 x)"
  by (cases x) auto

lemma de_entry:
  assumes "de_score D x_value = Inr de" and "v \<in> set de"
  shows "v = NaN \<or> in_unit_interval v"
proof -
  from assms(1) obtain x where
    de: "de = map2 (\<lambda>d v. clip_0_1 (np_divide d v)) (sum_axis0 (shape1 D) D) x"
    by (auto simp: de_score_def split: option.splits)
  with assms(2) obtain a b where "v = clip_0_1 (np_divide a b)" by auto
  with clip_0_1_entry [of "np_divide a b"] show ?thesis by simp
qed

lemma score_entry:
  assumes "t = NaN \<or> in_unit_interval t" and "d = NaN \<or> in_unit_interval d"
  shows "np_multiply (np_power t 0.1) (np_power d (1 - 0.1)) = NaN
         \<or> in_unit_interval (np_multiply (np_power t 0.1) (np_power d (1 - 0.1)))"
proof (cases t)
  case (Fin a)
  show ?thesis
  proof (cases d)
    case (Fin b)
    with \<open>t = Fin a\<close> assms have a: "0 \<le> a" "a \<le> 1" and b: "0 \<le> b" "b \<le> 1" by auto
    have "a powr 0.1 \<le> 1" "b powr (1 - 0.1) \<le> 1" using a b by (simp_all add: powr_le1)
    moreover have "0 \<le> a powr 0.1" "0 \<le> b powr (1 - 0.1)" by simp_all
    ultimately have "0 \<le> a powr 0.1 * b powr (1 - 0.1)" "a powr 0.1 * b powr (1 - 0.1) \<le> 1"
      by (simp_all add: mult_le_one)
    with a b Fin \<open>t = Fin a\<close> show ?thesis by auto
  qed (use assms Fin in auto)
qed (use assms in auto)

lemma weights_unit_or_nan:
  assumes "init_weights D x_value = Inr w" and "v \<in> set w"
  shows "v = NaN \<or> in_unit_interval v"
proof -
  from assms(1) obtain tc de where tc: "tc_score D = Inr tc" and de: "de_score D x_value = Inr de"
    and w: "w = threshold (map2 (\<lambda>t d. np_multiply (np_power t 0.1) (np_power d (1 - 0.1))) tc de)"
    by (auto simp: init_weights_def combined_score_def split: sum.splits)
  let ?scores = "map2 (\<lambda>t d. np_multiply (np_power t 0.1) (np_power d (1 - 0.1))) tc de"
  have "v \<in> (\<lambda>s. if np_lt s (Fin 0.6) then Fin 0 else s) ` set ?scores"
    using assms(2) unfolding w threshold_def by (simp only: set_map)
  then obtain s where s: "s \<in> set ?scores"
    and v: "v = (if np_lt s (Fin 0.6) then Fin 0 else s)"
    by blast
  from s have "s \<in> (\<lambda>(t, d). np_multiply (np_power t 0.1) (np_power d (1 - 0.1))) ` set (zip tc de)"
    by (simp only: set_map)
  then obtain t d where td: "(t, d) \<in> set (zip tc de)"
    and sd: "s = np_multiply (np_power t 0.1) (np_power d (1 - 0.1))"
    by auto
  from td have "t \<in> set tc" "d \<in> set de"
    by (auto dest: set_zip_leftD set_zip_rightD)
  with tc de tc_entry de_entry have "t = NaN \<or> in_unit_interval t" "d = NaN \<or> in_unit_interval d"
    by blast+
  from score_entry [OF this] sd have "s = NaN \<or> in_unit_interval s" by simp
  with v show ?thesis by auto
qed

lemma below_threshold_is_zero:
  assumes "combined_score D x_value = Inr s" and "j < length s" and "np_lt (s ! j) (Fin 0.6)"
  shows "\<exists>w. init_weights D x_value = Inr w \<and> w ! j = Fin 0"
  using assms by (simp add: init_weights_def threshold_def)

lemma zero_at_zero:
  assumes "zero_at days w = Inr w'" and "d \<in> set days"
  shows "length w' = length w \<and> w' ! d = 0"
proof -
  have fold_len: "length (fold (\<lambda>i v. v[i := 0]) ds u) = length u" for ds and u :: "'a list"
    by (induction ds arbitrary: u) auto
  have fold_zero: "d \<in> set ds \<Longrightarrow> d < length u \<Longrightarrow> fold (\<lambda>i v. v[i := 0]) ds u ! d = 0"
    for ds and u :: "'a list"
  proof (induction ds arbitrary: u)
    case Nil
    then show ?case by simp
  next
    case (Cons a ds)
    have upd: "x[a := 0] ! d = 0" if "x ! d = 0" for x :: "'a list" and a
      using that by (cases "a < length x") (auto simp: nth_list_update list_update_beyond)
    have keep: "x ! d = 0 \<Longrightarrow> fold (\<lambda>i v. v[i := 0]) ds x ! d = 0" for x :: "'a list"
      by (induction ds arbitrary: x) (auto simp: upd)
    show ?case
    proof (cases "d = a")
      case True
      with Cons.prems have "u[a := 0] ! d = 0" by simp
      then show ?thesis using keep by simp
    next
      case False
      with Cons show ?thesis by simp
    qed
  qed
  from assms(1) have all: "list_all (\<lambda>i. i < length w) days"
    and w': "w' = fold (\<lambda>i v. v[i := 0]) days w"
    by (auto simp: zero_at_def split: if_splits)
  from all assms(2) have "d < length w" by (auto simp: list_all_iff)
  with assms(2) w' fold_len fold_zero show ?thesis by simp
qed


subsection \<open>C6: the annual-periodicity component\<close>



subsection \<open>C7: \<open>r0\<close> is refreshed and read by the next right step\<close>





text \<open>
  In \<open>IterativeFitting\<close> the loop refreshes its local \<open>component_r0\<close> from row 0 of the
  new \<open>R\<close> as well, and stores it in the state data; the class that builds the degradation
  constraint there is not among the sources.
\<close>

lemma fit_body_refreshes_component_r0:
  assumes "fit_body left_minimize right_minimize weights args lv = Inr lv'"
  shows "lv_r_cs_value lv' \<noteq> [] \<and> lv_component_r0 lv' = lv_r_cs_value lv' ! 0 \<and>
         sd_component_r0 (fit_state_data (lv_self lv')) = lv_r_cs_value lv' ! 0"
  using assms
  by (auto simp: fit_body_def Let_def store_minimization_state_data_def
      split: sum.splits prod.splits list.splits)




subsection \<open>C8: the flag \<open>f1_increase\<close>\<close>

lemma f1_last_never_updated:
  assumes "fit_body left_minimize right_minimize weights args lv = Inr lv'"
  shows "lv_f1_last lv' = lv_f1_last lv"
  using assms
  by (auto simp: fit_body_def Let_def split: sum.splits prod.splits list.splits)

text \<open>
  C8. The loop compares the fit-loss component with \<open>f1_last\<close>, which is set before the
  loop and never assigned in it (\<open>f1_last_never_updated\<close>): the comparison is with the
  starting value, not with the previous iteration. Here the component goes 8, 4, 5.6: it
  increases in the second iteration (4 to 5.6) and the flag is not recorded.
\<close>

theorem f1_increase_compares_with_start:
  "objective_components [[10]] 1 1 20 0.8 [[1]] [[0]] 0 [1] ! 0 = 8 \<and>
   objective_components [[10]] 1 1 20 0.8 [[1]] [[5]] 0 [1] ! 0 = 4 \<and>
   objective_components [[10]] 1 1 20 0.8 [[1]] [[3]] 0 [1] ! 0 = 28 / 5 \<and>
   map_option (map_sum fst lv_iteration)
     (fit_loop keep_left stepping_right [[1]] [[0]] 0 [0] [1] args_cap1 tiny_fit) = Some (Inr 1) \<and>
   map_option (map_sum fst lv_r_cs_value)
     (fit_loop keep_left stepping_right [[1]] [[0]] 0 [0] [1] args_cap1 tiny_fit)
     = Some (Inr [[5]]) \<and>
   map_option (map_sum fst lv_iteration)
     (fit_loop keep_left stepping_right [[1]] [[0]] 0 [0] [1] args_cap2 tiny_fit) = Some (Inr 2) \<and>
   map_option (map_sum fst lv_r_cs_value)
     (fit_loop keep_left stepping_right [[1]] [[0]] 0 [0] [1] args_cap2 tiny_fit)
     = Some (Inr [[3]]) \<and>
   map_option (map_sum fst (sd_f1_increase \<circ> fit_state_data \<circ> lv_self))
     (fit_loop keep_left stepping_right [[1]] [[0]] 0 [0] [1] args_cap2 tiny_fit)
     = Some (Inr False)"
  by (simp add: tiny_run_defs args_cap1_def args_cap2_def fresh_state_data_def)

subsection \<open>C9: the rows of \<open>L\<close> that are forced to zero\<close>






subsection \<open>C10: all-zero weights\<close>

lemma np_ge_PInf:
  assumes "eps \<noteq> NaN"
  shows "np_ge PInf eps"
  using assms by (cases eps) auto

lemma fit_loop_enters:
  assumes "arg_exit_criterion_epsilon args \<noteq> NaN"
  shows "fit_cond args (fit_initial l_cs_value r_cs_value beta_value component_r0 weights args self)"
    and "fit_loop mk_left mk_right l_cs_value r_cs_value beta_value component_r0 weights args self
         = (case fit_body (left_matric_minimization mk_left weights args self)
                   (right_matric_minimization mk_right component_r0 weights args self)
                   weights args
                   (fit_initial l_cs_value r_cs_value beta_value component_r0 weights args self) of
              Inl e \<Rightarrow> Some (Inl e)
            | Inr lv' \<Rightarrow>
                while_raising (fit_cond args)
                  (fit_body (left_matric_minimization mk_left weights args self)
                     (right_matric_minimization mk_right component_r0 weights args self)
                     weights args) lv')"
proof -
  show c: "fit_cond args (fit_initial l_cs_value r_cs_value beta_value component_r0 weights args self)"
    using np_ge_PInf [OF assms] by (simp add: fit_cond_def fit_initial_def Let_def)
  show "fit_loop mk_left mk_right l_cs_value r_cs_value beta_value component_r0 weights args self
         = (case fit_body (left_matric_minimization mk_left weights args self)
                   (right_matric_minimization mk_right component_r0 weights args self)
                   weights args
                   (fit_initial l_cs_value r_cs_value beta_value component_r0 weights args self) of
              Inl e \<Rightarrow> Some (Inl e)
            | Inr lv' \<Rightarrow>
                while_raising (fit_cond args)
                  (fit_body (left_matric_minimization mk_left weights args self)
                     (right_matric_minimization mk_right component_r0 weights args self)
                     weights args) lv')"
    unfolding fit_loop_def using c by (subst while_raising.simps) simp
qed

lemma fit_body_left_raises:
  assumes "left_minimize (lv_l_cs_value lv, lv_r_cs_value lv, lv_beta_value lv) = Inl e"
  shows "\<exists>self'. fit_body left_minimize right_minimize weights args lv = Inl (e, self')"
  using assms by (simp add: fit_body_def Let_def)

lemma ics_loop_enters:
  assumes "eps \<noteq> NaN"
  shows "ics_cond eps (ics_initial self)"
    and "minimize_objective_loop solve_L solve_R eps max_iter calc_deg max_deg min_deg self
         = (case ics_body solve_L solve_R max_iter calc_deg max_deg min_deg (ics_initial self) of
              Inl e \<Rightarrow> Some (Inl e)
            | Inr st' \<Rightarrow>
                while_raising (ics_cond eps)
                  (ics_body solve_L solve_R max_iter calc_deg max_deg min_deg) st')"
proof -
  show c: "ics_cond eps (ics_initial self)"
    using np_ge_PInf [OF assms] by (simp add: ics_cond_def ics_initial_def Let_def)
  show "minimize_objective_loop solve_L solve_R eps max_iter calc_deg max_deg min_deg self
         = (case ics_body solve_L solve_R max_iter calc_deg max_deg min_deg (ics_initial self) of
              Inl e \<Rightarrow> Some (Inl e)
            | Inr st' \<Rightarrow>
                while_raising (ics_cond eps)
                  (ics_body solve_L solve_R max_iter calc_deg max_deg min_deg) st')"
    unfolding minimize_objective_loop_def using c by (subst while_raising.simps) simp
qed

text \<open>
  C10, as the code has it. Neither class looks at the weights before fitting. With all-zero
  weights (as with any weights), and an exit threshold that is a number, the loop condition
  holds at the start, the first iteration is executed on the initial values, and an
  exception of the left minimizer on its first call is the outcome of the loop: the fit
  does not refuse to proceed.
\<close>

theorem loop_runs_on_zero_weights:
  assumes "list_all (\<lambda>w. w = 0) weights"
    and "arg_exit_criterion_epsilon args \<noteq> NaN"
    and "list_all (\<lambda>w. w = 0) (ics_weights ics)"
    and "eps \<noteq> NaN"
  shows
    "fit_cond args (fit_initial l_cs_value r_cs_value beta_value r0_start weights args self) \<and>
     fit_loop mk_left mk_right l_cs_value r_cs_value beta_value r0_start weights args self
       = (case fit_body (left_matric_minimization mk_left weights args self)
                 (right_matric_minimization mk_right r0_start weights args self)
                 weights args
                 (fit_initial l_cs_value r_cs_value beta_value r0_start weights args self) of
            Inl e \<Rightarrow> Some (Inl e)
          | Inr lv' \<Rightarrow>
              while_raising (fit_cond args)
                (fit_body (left_matric_minimization mk_left weights args self)
                   (right_matric_minimization mk_right r0_start weights args self)
                   weights args) lv') \<and>
     (\<forall>e. left_matric_minimization mk_left weights args self (l_cs_value, r_cs_value, beta_value)
             = Inl e \<longrightarrow>
           (\<exists>self'. fit_loop mk_left mk_right l_cs_value r_cs_value beta_value r0_start weights
                       args self = Some (Inl (e, self')))) \<and>
     ics_cond eps (ics_initial ics) \<and>
     minimize_objective_loop solve_L solve_R eps max_iter calc_deg max_deg min_deg ics
       = (case ics_body solve_L solve_R max_iter calc_deg max_deg min_deg (ics_initial ics) of
            Inl e \<Rightarrow> Some (Inl e)
          | Inr st' \<Rightarrow>
              while_raising (ics_cond eps)
                (ics_body solve_L solve_R max_iter calc_deg max_deg min_deg) st')"
proof (intro conjI allI impI)
  show "fit_cond args (fit_initial l_cs_value r_cs_value beta_value r0_start weights args self)"
    using assms(2) by (rule fit_loop_enters(1))
  show unfold: "fit_loop mk_left mk_right l_cs_value r_cs_value beta_value r0_start weights args self
       = (case fit_body (left_matric_minimization mk_left weights args self)
                 (right_matric_minimization mk_right r0_start weights args self)
                 weights args
                 (fit_initial l_cs_value r_cs_value beta_value r0_start weights args self) of
            Inl e \<Rightarrow> Some (Inl e)
          | Inr lv' \<Rightarrow>
              while_raising (fit_cond args)
                (fit_body (left_matric_minimization mk_left weights args self)
                   (right_matric_minimization mk_right r0_start weights args self)
                   weights args) lv')"
    using assms(2) by (rule fit_loop_enters(2))
  show "ics_cond eps (ics_initial ics)"
    using assms(4) by (rule ics_loop_enters(1))
  show "minimize_objective_loop solve_L solve_R eps max_iter calc_deg max_deg min_deg ics
       = (case ics_body solve_L solve_R max_iter calc_deg max_deg min_deg (ics_initial ics) of
            Inl e \<Rightarrow> Some (Inl e)
          | Inr st' \<Rightarrow>
              while_raising (ics_cond eps)
                (ics_body solve_L solve_R max_iter calc_deg max_deg min_deg) st')"
    using assms(4) by (rule ics_loop_enters(2))
  fix e
  assume "left_matric_minimization mk_left weights args self (l_cs_value, r_cs_value, beta_value)
          = Inl e"
  then have "left_matric_minimization mk_left weights args self
               (lv_l_cs_value (fit_initial l_cs_value r_cs_value beta_value r0_start weights args self),
                lv_r_cs_value (fit_initial l_cs_value r_cs_value beta_value r0_start weights args self),
                lv_beta_value (fit_initial l_cs_value r_cs_value beta_value r0_start weights args self))
             = Inl e"
    by (simp add: fit_initial_def Let_def)
  then have "\<exists>self'. fit_body (left_matric_minimization mk_left weights args self)
       (right_matric_minimization mk_right r0_start weights args self) weights args
       (fit_initial l_cs_value r_cs_value beta_value r0_start weights args self) = Inl (e, self')"
    by (rule fit_body_left_raises)
  then obtain self' where
    "fit_body (left_matric_minimization mk_left weights args self)
       (right_matric_minimization mk_right r0_start weights args self) weights args
       (fit_initial l_cs_value r_cs_value beta_value r0_start weights args self) = Inl (e, self')"
    by blast
  then show "\<exists>self'. fit_loop mk_left mk_right l_cs_value r_cs_value beta_value r0_start weights
                       args self = Some (Inl (e, self'))"
    by (simp add: unfold)
qed

theorem loop_runs_on_zero_weights_witness:
  "list_all (\<lambda>w. w = 0) [0 :: real] \<and> arg_exit_criterion_epsilon quiet_args \<noteq> NaN \<and>
   list_all (\<lambda>w. w = 0) (ics_weights (tiny_ics\<lparr>ics_weights := [0]\<rparr>)) \<and> Fin (1 / 1000) \<noteq> NaN \<and>
   fit_cond quiet_args (fit_initial [[1]] [[0]] 0 [0] [0] quiet_args tiny_fit) \<and>
   (\<exists>self'. fit_loop failing_left keep_right [[1]] [[0]] 0 [0] [0] quiet_args tiny_fit
              = Some (Inl (SolverError, self'))) \<and>
   ics_cond (Fin (1 / 1000)) (ics_initial (tiny_ics\<lparr>ics_weights := [0]\<rparr>))"
proof -
  have a: "list_all (\<lambda>w. w = 0) [0 :: real]" by simp
  have b: "arg_exit_criterion_epsilon quiet_args \<noteq> NaN"
    by (simp add: quiet_args_def default_args_def)
  have c: "list_all (\<lambda>w. w = 0) (ics_weights (tiny_ics\<lparr>ics_weights := [0]\<rparr>))" by simp
  have d: "Fin (1 / 1000) \<noteq> NaN" by simp
  have e: "left_matric_minimization failing_left [0] quiet_args tiny_fit ([[1]], [[0]], 0)
           = Inl SolverError"
    by (simp add: left_matric_minimization_def failing_left_def)
  show ?thesis
    using a b c d e
      loop_runs_on_zero_weights [OF a b c d, where mk_left = failing_left
        and mk_right = keep_right and l_cs_value = "[[1]]" and r_cs_value = "[[0]]"
        and beta_value = 0 and r0_start = "[0]" and self = tiny_fit]
    by blast
qed

text \<open>
  C10 as the claim words it fails: with the weight vector \<open>[0]\<close> the loop runs one
  iteration, in which the right factor is minimized from \<open>[[0]]\<close> to \<open>[[5]]\<close>.
\<close>

theorem zero_weights_not_refused:
  "sum_list [0 :: real] = 0 \<and>
   map_option (map_sum fst lv_iteration)
     (fit_loop keep_left stepping_right [[1]] [[0]] 0 [0] [0] quiet_args tiny_fit) = Some (Inr 1) \<and>
   map_option (map_sum fst lv_r_cs_value)
     (fit_loop keep_left stepping_right [[1]] [[0]] 0 [0] [0] quiet_args tiny_fit)
     = Some (Inr [[5]])"
  by (simp add: tiny_run_defs)

end
